theory Spec2Isabelle
  imports Complex_Main
begin

section \<open>Numbers, series and frames\<close>

text \<open>
  Prices are Python and numpy floats.  They are modelled as real numbers, and the one
  special value the claims depend on, NaN (pandas' "undefined"), as \<open>None\<close>: a cell is
  a \<open>real option\<close>.  Every comparison with NaN is false and arithmetic propagates it.
  Rounding and the infinities are not modelled.
\<close>

type_synonym cell = "real option"
type_synonym series = "cell list"

datatype error = KeyError string | ValueError | IndexError

definition cle :: "cell \<Rightarrow> cell \<Rightarrow> bool" where
  "cle a b = (case a of None \<Rightarrow> False | Some x \<Rightarrow> (case b of None \<Rightarrow> False | Some y \<Rightarrow> x \<le> y))"

definition clt :: "cell \<Rightarrow> cell \<Rightarrow> bool" where
  "clt a b = (case a of None \<Rightarrow> False | Some x \<Rightarrow> (case b of None \<Rightarrow> False | Some y \<Rightarrow> x < y))"

definition cge :: "cell \<Rightarrow> cell \<Rightarrow> bool" where
  "cge a b = cle b a"

definition cgt :: "cell \<Rightarrow> cell \<Rightarrow> bool" where
  "cgt a b = clt b a"

definition ceq :: "cell \<Rightarrow> cell \<Rightarrow> bool" where
  "ceq a b = (case a of None \<Rightarrow> False | Some x \<Rightarrow> (case b of None \<Rightarrow> False | Some y \<Rightarrow> x = y))"

definition lift2 :: "(real \<Rightarrow> real \<Rightarrow> real) \<Rightarrow> cell \<Rightarrow> cell \<Rightarrow> cell" where
  "lift2 f a b = (case a of None \<Rightarrow> None | Some x \<Rightarrow> (case b of None \<Rightarrow> None | Some y \<Rightarrow> Some (f x y)))"

definition cadd :: "cell \<Rightarrow> cell \<Rightarrow> cell" where
  "cadd = lift2 (+)"

definition csub :: "cell \<Rightarrow> cell \<Rightarrow> cell" where
  "csub = lift2 (-)"

definition cmul :: "cell \<Rightarrow> cell \<Rightarrow> cell" where
  "cmul = lift2 (*)"

definition cdiv :: "cell \<Rightarrow> cell \<Rightarrow> cell" where
  "cdiv = lift2 (/)"

definition cabs :: "cell \<Rightarrow> cell" where
  "cabs a = map_option abs a"

text \<open>
  Python's builtin \<^verbatim>\<open>min(a, b)\<close> keeps its first argument unless the second is
  strictly smaller, \<^verbatim>\<open>max(a, b)\<close> unless the second is strictly greater; with a NaN
  on either side the first argument is returned.
\<close>

definition py_min :: "cell \<Rightarrow> cell \<Rightarrow> cell" where
  "py_min a b = (if clt b a then b else a)"

definition py_max :: "cell \<Rightarrow> cell \<Rightarrow> cell" where
  "py_max a b = (if cgt b a then b else a)"

text \<open>Element-wise series arithmetic; both operands come from one frame, so the index aligns.\<close>

definition ser_add :: "series \<Rightarrow> series \<Rightarrow> series" where
  "ser_add xs ys = map2 cadd xs ys"

definition ser_sub :: "series \<Rightarrow> series \<Rightarrow> series" where
  "ser_sub xs ys = map2 csub xs ys"

definition ser_scale :: "real \<Rightarrow> series \<Rightarrow> series" where
  "ser_scale k xs = map (cmul (Some k)) xs"

definition ser_div_const :: "series \<Rightarrow> real \<Rightarrow> series" where
  "ser_div_const xs k = map (\<lambda>a. cdiv a (Some k)) xs"

definition ser_abs :: "series \<Rightarrow> series" where
  "ser_abs xs = map cabs xs"

text \<open>\<^verbatim>\<open>Series.shift()\<close>: every value moves one row down, the first row becomes NaN.\<close>

definition shift :: "series \<Rightarrow> series" where
  "shift xs = (if xs = [] then [] else None # butlast xs)"

text \<open>
  \<^verbatim>\<open>np.max(ranges, axis=1)\<close> on a DataFrame is \<^verbatim>\<open>DataFrame.max(axis=1)\<close>, which skips
  NaN: the maximum of the values that are defined, NaN when none is.
\<close>

definition skip_max :: "cell \<Rightarrow> cell \<Rightarrow> cell" where
  "skip_max a b = (case a of None \<Rightarrow> b | Some x \<Rightarrow> (case b of None \<Rightarrow> Some x | Some y \<Rightarrow> Some (max x y)))"

definition row_max3 :: "series \<Rightarrow> series \<Rightarrow> series \<Rightarrow> series" where
  "row_max3 xs ys zs = map (\<lambda>(a, b, c). skip_max (skip_max a b) c) (zip xs (zip ys zs))"

text \<open>
  \<^verbatim>\<open>Series.rolling(period).mean()\<close> with the default \<^verbatim>\<open>min_periods = period\<close>: row
  \<open>i\<close> is the mean of the \<open>period\<close> values ending at \<open>i\<close> when all of them exist and
  are defined, NaN otherwise (also for a window of length 0).
\<close>

definition window_mean :: "nat \<Rightarrow> series \<Rightarrow> nat \<Rightarrow> cell" where
  "window_mean period xs i =
     (if period = 0 \<or> i + 1 < period then None
      else (let w = take period (drop (i + 1 - period) xs)
            in if None \<in> set w then None else Some (sum_list (map the w) / real period)))"

definition rolling_mean :: "nat \<Rightarrow> series \<Rightarrow> series" where
  "rolling_mean period xs = map (window_mean period xs) [0..<length xs]"

text \<open>
  A DataFrame: the number of rows of its index, its named numeric columns, and its
  named text columns (the strategies read one, \<^verbatim>\<open>symbol\<close>).  The index labels are
  taken to be unique, so that label addressing (\<^verbatim>\<open>df.loc[df.index[i], c]\<close>) and
  positional addressing (\<^verbatim>\<open>df[c].iloc[i]\<close>) name the same cell.
\<close>

record frame =
  nrows :: nat
  cols :: "string \<Rightarrow> series option"
  text_cols :: "string \<Rightarrow> string list option"


definition has_col :: "frame \<Rightarrow> string \<Rightarrow> bool" where
  "has_col df c = (cols df c \<noteq> None)"

definition set_col :: "frame \<Rightarrow> string \<Rightarrow> series \<Rightarrow> frame" where
  "set_col df c s = df\<lparr>cols := (cols df)(c \<mapsto> s)\<rparr>"

definition set_const :: "frame \<Rightarrow> string \<Rightarrow> real \<Rightarrow> frame" where
  "set_const df c v = set_col df c (replicate (nrows df) (Some v))"

text \<open>Reading and writing one cell of a column that exists.\<close>

definition loc :: "frame \<Rightarrow> string \<Rightarrow> nat \<Rightarrow> cell" where
  "loc df c i = the (cols df c) ! i"

definition set_loc :: "frame \<Rightarrow> string \<Rightarrow> nat \<Rightarrow> cell \<Rightarrow> frame" where
  "set_loc df c i v = df\<lparr>cols := (cols df)(c \<mapsto> (the (cols df c))[i := v])\<rparr>"

section \<open>The indicator module\<close>

text \<open>
  \<^verbatim>\<open>calculate_atr(df, period)\<close>.  The window is a natural number: pandas rejects a
  negative one.  A missing column raises \<^verbatim>\<open>KeyError\<close>, in the order the source reads
  the columns.  The function works on \<^verbatim>\<open>df.copy()\<close>; the value returned here is that
  copy, and the store model further down shows what happens to the caller's object.
\<close>

definition true_range :: "series \<Rightarrow> series \<Rightarrow> series \<Rightarrow> series" where
  "true_range high low close =
     (let high_low = ser_sub high low;
          high_close = ser_abs (ser_sub high (shift close));
          low_close = ser_abs (ser_sub low (shift close))
      in row_max3 high_low high_close low_close)"

definition calculate_atr :: "frame \<Rightarrow> nat \<Rightarrow> error + frame" where
  "calculate_atr df period =
     (case cols df ''high'' of None \<Rightarrow> Inl (KeyError ''high'') | Some high \<Rightarrow>
      (case cols df ''low'' of None \<Rightarrow> Inl (KeyError ''low'') | Some low \<Rightarrow>
       (case cols df ''close'' of None \<Rightarrow> Inl (KeyError ''close'') | Some close \<Rightarrow>
          Inr (set_col df ''atr'' (rolling_mean period (true_range high low close))))))"

text \<open>
  \<^verbatim>\<open>calculate_supertrend(df, period, multiplier, atr_column)\<close>, lines 38 to 52: the
  copy, the ATR when the frame has no such column, the basic bands, and the two
  initialised columns.  Line 48 reads \<^verbatim>\<open>df[atr_column]\<close> again, after the upper band
  has been stored.
\<close>

definition supertrend_prepare :: "frame \<Rightarrow> nat \<Rightarrow> real \<Rightarrow> string \<Rightarrow> error + frame" where
  "supertrend_prepare df period multiplier atr_column =
     (case (if \<not> has_col df atr_column
            then (case calculate_atr df period of Inl e \<Rightarrow> Inl e | Inr d \<Rightarrow> Inr (d, ''atr''))
            else Inr (df, atr_column)) of
        Inl e \<Rightarrow> Inl e
      | Inr (df1, atrc) \<Rightarrow>
         (case cols df1 ''high'' of None \<Rightarrow> Inl (KeyError ''high'') | Some high \<Rightarrow>
          (case cols df1 ''low'' of None \<Rightarrow> Inl (KeyError ''low'') | Some low \<Rightarrow>
             (let hl2 = ser_div_const (ser_add high low) 2;
                  df2 = set_col df1 ''supertrend_upperband''
                          (ser_add hl2 (ser_scale multiplier (the (cols df1 atrc))));
                  df3 = set_col df2 ''supertrend_lowerband''
                          (ser_sub hl2 (ser_scale multiplier (the (cols df2 atrc))));
                  df4 = set_const df3 ''supertrend'' 0;
                  df5 = set_const df4 ''supertrend_direction'' 1
              in Inr df5))))"

text \<open>One iteration of the loop of lines 55 to 85, at row \<open>i\<close> with \<open>1 \<le> i\<close>.\<close>

definition supertrend_step :: "nat \<Rightarrow> frame \<Rightarrow> frame" where
  "supertrend_step i df =
     (let prev = i - 1;
          df1 = (if cle (loc df ''close'' prev) (loc df ''supertrend_upperband'' prev)
                 then set_loc df ''supertrend_upperband'' i
                        (py_min (loc df ''supertrend_upperband'' i) (loc df ''supertrend_upperband'' prev))
                 else df);
          df2 = (if cge (loc df1 ''close'' prev) (loc df1 ''supertrend_lowerband'' prev)
                 then set_loc df1 ''supertrend_lowerband'' i
                        (py_max (loc df1 ''supertrend_lowerband'' i) (loc df1 ''supertrend_lowerband'' prev))
                 else df1);
          df3 = (if cgt (loc df2 ''close'' i) (loc df2 ''supertrend_upperband'' prev)
                 then set_loc df2 ''supertrend_direction'' i (Some 1)
                 else if clt (loc df2 ''close'' i) (loc df2 ''supertrend_lowerband'' prev)
                 then set_loc df2 ''supertrend_direction'' i (Some (- 1))
                 else set_loc df2 ''supertrend_direction'' i (loc df2 ''supertrend_direction'' prev));
          df4 = (if ceq (loc df3 ''supertrend_direction'' i) (Some 1)
                 then set_loc df3 ''supertrend'' i (loc df3 ''supertrend_lowerband'' i)
                 else set_loc df3 ''supertrend'' i (loc df3 ''supertrend_upperband'' i))
      in df4)"

text \<open>
  The whole function.  The loop body reads the \<^verbatim>\<open>close\<close> column, so a frame without
  one raises \<^verbatim>\<open>KeyError\<close> as soon as there is a second row.
\<close>

definition calculate_supertrend :: "frame \<Rightarrow> nat \<Rightarrow> real \<Rightarrow> string \<Rightarrow> error + frame" where
  "calculate_supertrend df period multiplier atr_column =
     (case supertrend_prepare df period multiplier atr_column of
        Inl e \<Rightarrow> Inl e
      | Inr df0 \<Rightarrow>
          if 1 < nrows df0 \<and> \<not> has_col df0 ''close'' then Inl (KeyError ''close'')
          else Inr (fold supertrend_step [1..<nrows df0] df0))"

text \<open>A bar sequence as the caller builds it: one row per bar, four columns, no NaN.\<close>

record bar =
  b_high :: real
  b_low :: real
  b_close :: real
  b_volume :: real

definition frame_of :: "bar list \<Rightarrow> frame" where
  "frame_of bars =
     \<lparr>nrows = length bars,
      cols = [''high'' \<mapsto> map (\<lambda>b. Some (b_high b)) bars,
              ''low'' \<mapsto> map (\<lambda>b. Some (b_low b)) bars,
              ''close'' \<mapsto> map (\<lambda>b. Some (b_close b)) bars,
              ''volume'' \<mapsto> map (\<lambda>b. Some (b_volume b)) bars],
      text_cols = Map.empty\<rparr>"

section \<open>Frames as objects in a store\<close>

text \<open>
  The functions of the indicator module receive a reference to the caller's DataFrame.
  To say what happens to the caller's object, frames live in a store: a map from
  addresses to frames and the next free address.  \<^verbatim>\<open>df.copy()\<close> allocates a new
  object with the same contents (a deep copy, the default), and every assignment
  \<^verbatim>\<open>df[c] = s\<close> or \<^verbatim>\<open>df.loc[i, c] = v\<close> changes the object that the variable
  \<^verbatim>\<open>df\<close> refers to at that moment.  The functions return their result, a reference or
  an error, together with the store they leave behind.
\<close>

record store =
  next_addr :: nat
  objs :: "nat \<Rightarrow> frame option"

definition deref :: "store \<Rightarrow> nat \<Rightarrow> frame" where
  "deref h a = the (objs h a)"

definition df_copy :: "store \<Rightarrow> nat \<Rightarrow> nat \<times> store" where
  "df_copy h a =
     (next_addr h, \<lparr>next_addr = Suc (next_addr h), objs = (objs h)(next_addr h \<mapsto> deref h a)\<rparr>)"

definition modify :: "store \<Rightarrow> nat \<Rightarrow> (frame \<Rightarrow> frame) \<Rightarrow> store" where
  "modify h a f = h\<lparr>objs := (objs h)(a \<mapsto> f (deref h a))\<rparr>"

definition calculate_atr_st :: "store \<Rightarrow> nat \<Rightarrow> nat \<Rightarrow> (error + nat) \<times> store" where
  "calculate_atr_st h0 df0 period =
     (let (df, h) = df_copy h0 df0
      in case cols (deref h df) ''high'' of None \<Rightarrow> (Inl (KeyError ''high''), h) | Some high \<Rightarrow>
         (case cols (deref h df) ''low'' of None \<Rightarrow> (Inl (KeyError ''low''), h) | Some low \<Rightarrow>
          (case cols (deref h df) ''close'' of None \<Rightarrow> (Inl (KeyError ''close''), h) | Some close \<Rightarrow>
             (Inr df,
              modify h df (\<lambda>d. set_col d ''atr'' (rolling_mean period (true_range high low close)))))))"

definition calculate_supertrend_st ::
  "store \<Rightarrow> nat \<Rightarrow> nat \<Rightarrow> real \<Rightarrow> string \<Rightarrow> (error + nat) \<times> store" where
  "calculate_supertrend_st h0 df0 period multiplier atr_column =
     (let (df1, h1) = df_copy h0 df0
      in case (if \<not> has_col (deref h1 df1) atr_column
               then (case calculate_atr_st h1 df1 period of
                       (Inl e, h) \<Rightarrow> (Inl e, h)
                     | (Inr d, h) \<Rightarrow> (Inr (d, ''atr''), h))
               else (Inr (df1, atr_column), h1)) of
           (Inl e, h) \<Rightarrow> (Inl e, h)
         | (Inr (df, atrc), h2) \<Rightarrow>
            (case cols (deref h2 df) ''high'' of None \<Rightarrow> (Inl (KeyError ''high''), h2) | Some high \<Rightarrow>
             (case cols (deref h2 df) ''low'' of None \<Rightarrow> (Inl (KeyError ''low''), h2) | Some low \<Rightarrow>
                (let hl2 = ser_div_const (ser_add high low) 2;
                     h3 = modify h2 df (\<lambda>d. set_col d ''supertrend_upperband''
                            (ser_add hl2 (ser_scale multiplier (the (cols (deref h2 df) atrc)))));
                     h4 = modify h3 df (\<lambda>d. set_col d ''supertrend_lowerband''
                            (ser_sub hl2 (ser_scale multiplier (the (cols (deref h3 df) atrc)))));
                     h5 = modify h4 df (\<lambda>d. set_const d ''supertrend'' 0);
                     h6 = modify h5 df (\<lambda>d. set_const d ''supertrend_direction'' 1)
                 in if 1 < nrows (deref h6 df) \<and> \<not> has_col (deref h6 df) ''close''
                    then (Inl (KeyError ''close''), h6)
                    else (Inr df,
                          fold (\<lambda>i h. modify h df (supertrend_step i)) [1..<nrows (deref h6 df)] h6)))))"

section \<open>Strategies\<close>

text \<open>
  A strategy is built from a configuration dictionary; every entry is optional and
  \<^verbatim>\<open>config.get(key, default)\<close> supplies the default.
\<close>

record config =
  c_enabled :: "bool option"
  c_period :: "nat option"
  c_multiplier :: "real option"
  c_volume_confirmation :: "bool option"
  c_volume_threshold :: "real option"
  c_daily_trend_filter :: "bool option"
  c_profit_target_pct :: "real option"
  c_stop_loss_atr_mult :: "real option"
  c_trailing_stop_enabled :: "bool option"
  c_trailing_stop_activation :: "real option"
  c_risk_per_trade :: "real option"
  c_max_position_size :: "real option"
  c_rsi_min :: "real option"
  c_rsi_max :: "real option"
  c_macd_threshold :: "real option"
  c_bb_filter :: "bool option"

definition cfg_get :: "'a option \<Rightarrow> 'a \<Rightarrow> 'a" where
  "cfg_get v d = (case v of None \<Rightarrow> d | Some x \<Rightarrow> x)"

definition empty_config :: config where
  "empty_config =
     \<lparr>c_enabled = None, c_period = None, c_multiplier = None, c_volume_confirmation = None,
      c_volume_threshold = None, c_daily_trend_filter = None, c_profit_target_pct = None,
      c_stop_loss_atr_mult = None, c_trailing_stop_enabled = None,
      c_trailing_stop_activation = None, c_risk_per_trade = None, c_max_position_size = None,
      c_rsi_min = None, c_rsi_max = None, c_macd_threshold = None, c_bb_filter = None\<rparr>"

text \<open>\<^verbatim>\<open>SuperTrendStrategy\<close>: the fields set by \<^verbatim>\<open>BaseStrategy.__init__\<close> and its own.\<close>

record supertrend_strategy =
  name :: string
  config :: config
  enabled :: bool
  period :: nat
  multiplier :: real
  volume_confirmation :: bool
  volume_threshold :: real
  daily_trend_filter :: bool
  profit_target_pct :: real
  stop_loss_atr_mult :: real
  trailing_stop_enabled :: bool
  trailing_stop_activation :: real

definition SuperTrendStrategy :: "config \<Rightarrow> supertrend_strategy" where
  "SuperTrendStrategy cfg =
     \<lparr>name = ''SuperTrend'',
      config = cfg,
      enabled = cfg_get (c_enabled cfg) True,
      period = cfg_get (c_period cfg) 10,
      multiplier = cfg_get (c_multiplier cfg) 3,
      volume_confirmation = cfg_get (c_volume_confirmation cfg) True,
      volume_threshold = cfg_get (c_volume_threshold cfg) (12 / 10),
      daily_trend_filter = cfg_get (c_daily_trend_filter cfg) True,
      profit_target_pct = cfg_get (c_profit_target_pct cfg) (10 / 100),
      stop_loss_atr_mult = cfg_get (c_stop_loss_atr_mult cfg) (25 / 10),
      trailing_stop_enabled = cfg_get (c_trailing_stop_enabled cfg) True,
      trailing_stop_activation = cfg_get (c_trailing_stop_activation cfg) (5 / 100)\<rparr>"

text \<open>
  \<^verbatim>\<open>SuperTrendStrategy._calculate_supertrend(df)\<close>: the second copy of the recurrence,
  with its own ATR (lines 321 to 327), its own band columns \<^verbatim>\<open>upperband\<close> and
  \<^verbatim>\<open>lowerband\<close>, and positional reads.
\<close>

definition strategy_prepare :: "supertrend_strategy \<Rightarrow> frame \<Rightarrow> error + frame" where
  "strategy_prepare self df =
     (case (if \<not> has_col df ''atr''
            then (case cols df ''high'' of None \<Rightarrow> Inl (KeyError ''high'') | Some h \<Rightarrow>
                  (case cols df ''low'' of None \<Rightarrow> Inl (KeyError ''low'') | Some l \<Rightarrow>
                   (case cols df ''close'' of None \<Rightarrow> Inl (KeyError ''close'') | Some c \<Rightarrow>
                      (let high_low = ser_sub h l;
                           high_close = ser_abs (ser_sub h (shift c));
                           low_close = ser_abs (ser_sub l (shift c));
                           true_range = row_max3 high_low high_close low_close
                       in Inr (set_col df ''atr'' (rolling_mean (period self) true_range))))))
            else Inr df) of
        Inl e \<Rightarrow> Inl e
      | Inr df1 \<Rightarrow>
         (case cols df1 ''high'' of None \<Rightarrow> Inl (KeyError ''high'') | Some h \<Rightarrow>
          (case cols df1 ''low'' of None \<Rightarrow> Inl (KeyError ''low'') | Some l \<Rightarrow>
             (let hl2 = ser_div_const (ser_add h l) 2;
                  df2 = set_col df1 ''upperband''
                          (ser_add hl2 (ser_scale (multiplier self) (the (cols df1 ''atr''))));
                  df3 = set_col df2 ''lowerband''
                          (ser_sub hl2 (ser_scale (multiplier self) (the (cols df2 ''atr''))));
                  df4 = set_const df3 ''supertrend'' 0;
                  df5 = set_const df4 ''supertrend_direction'' 1
              in Inr df5))))"

definition strategy_step :: "nat \<Rightarrow> frame \<Rightarrow> frame" where
  "strategy_step i df =
     (let df1 = (if cle (loc df ''close'' (i - 1)) (loc df ''upperband'' (i - 1))
                 then set_loc df ''upperband'' i (py_min (loc df ''upperband'' i) (loc df ''upperband'' (i - 1)))
                 else df);
          df2 = (if cge (loc df1 ''close'' (i - 1)) (loc df1 ''lowerband'' (i - 1))
                 then set_loc df1 ''lowerband'' i (py_max (loc df1 ''lowerband'' i) (loc df1 ''lowerband'' (i - 1)))
                 else df1);
          df3 = (if cgt (loc df2 ''close'' i) (loc df2 ''upperband'' (i - 1))
                 then set_loc df2 ''supertrend_direction'' i (Some 1)
                 else if clt (loc df2 ''close'' i) (loc df2 ''lowerband'' (i - 1))
                 then set_loc df2 ''supertrend_direction'' i (Some (- 1))
                 else set_loc df2 ''supertrend_direction'' i (loc df2 ''supertrend_direction'' (i - 1)));
          df4 = (if ceq (loc df3 ''supertrend_direction'' i) (Some 1)
                 then set_loc df3 ''supertrend'' i (loc df3 ''lowerband'' i)
                 else set_loc df3 ''supertrend'' i (loc df3 ''upperband'' i))
      in df4)"

definition strategy_calculate_supertrend :: "supertrend_strategy \<Rightarrow> frame \<Rightarrow> error + frame" where
  "strategy_calculate_supertrend self df =
     (case strategy_prepare self df of
        Inl e \<Rightarrow> Inl e
      | Inr df0 \<Rightarrow>
          if 1 < nrows df0 \<and> \<not> has_col df0 ''close'' then Inl (KeyError ''close'')
          else Inr (fold strategy_step [1..<nrows df0] df0))"

section \<open>Vocabulary of the proofs\<close>









text \<open>
  \<^verbatim>\<open>int(x)\<close> on a float truncates towards zero.
\<close>

definition py_int :: "real \<Rightarrow> int" where
  "py_int x = (if 0 \<le> x then \<lfloor>x\<rfloor> else \<lceil>x\<rceil>)"

text \<open>\<^verbatim>\<open>SuperTrendStrategy.calculate_position_size\<close>, on finite numbers.\<close>

definition calculate_position_size ::
  "supertrend_strategy \<Rightarrow> string \<Rightarrow> real \<Rightarrow> real \<Rightarrow> real \<Rightarrow> int" where
  "calculate_position_size self symbol price atr available_capital =
     (if atr \<le> 0 \<or> price \<le> 0 then 0
      else (let risk_per_trade = cfg_get (c_risk_per_trade (config self)) (1 / 100);
                risk_amount = available_capital * risk_per_trade;
                stop_loss_distance = atr * stop_loss_atr_mult self;
                qty = (if stop_loss_distance > 0 then py_int (risk_amount / stop_loss_distance) else 0);
                max_position_size = cfg_get (c_max_position_size (config self)) (20 / 100);
                max_qty = py_int ((available_capital * max_position_size) / price)
            in min qty max_qty))"

text \<open>
  A row of a frame (\<^verbatim>\<open>df.iloc[i]\<close>, a Series): a cell for every column label.
  \<^verbatim>\<open>label in row\<close> is \<open>row label \<noteq> None\<close>, and \<^verbatim>\<open>row.get(label, d)\<close> falls back to
  \<open>d\<close> only when the label is absent (a NaN cell is returned as it is).
\<close>

type_synonym row = "string \<Rightarrow> cell option"

definition iloc :: "frame \<Rightarrow> nat \<Rightarrow> row" where
  "iloc df i = (\<lambda>c. map_option (\<lambda>s. s ! i) (cols df c))"

definition row_get :: "row \<Rightarrow> string \<Rightarrow> cell \<Rightarrow> cell" where
  "row_get r c d = (case r c of None \<Rightarrow> d | Some v \<Rightarrow> v)"

text \<open>\<^verbatim>\<open>DataFrame.empty\<close>: no rows or no columns.\<close>

definition empty_frame :: "frame \<Rightarrow> bool" where
  "empty_frame df \<longleftrightarrow> nrows df = 0 \<or> (cols df = Map.empty \<and> text_cols df = Map.empty)"

text \<open>
  A position dictionary.  A price field is \<open>None\<close> when the key is absent or holds
  Python's \<^verbatim>\<open>None\<close>, and a cell otherwise.
\<close>

record position =
  pos_symbol :: string
  qty :: int
  entry_price :: "cell option"
  strategy :: string
  stop_loss_price :: "cell option"
  take_profit_price :: "cell option"
  order_id :: string

text \<open>
  Truthiness of an optional float, as in \<^verbatim>\<open>if stop_loss and ...\<close>: \<^verbatim>\<open>None\<close> and
  \<open>0.0\<close> are false, every other value (NaN too) is true.
\<close>

definition truthy :: "cell option \<Rightarrow> bool" where
  "truthy v = (case v of None \<Rightarrow> False | Some None \<Rightarrow> True | Some (Some x) \<Rightarrow> x \<noteq> 0)"

text \<open>The value of an optional float in a comparison that is reached only when it is truthy.\<close>

definition cell_of :: "cell option \<Rightarrow> cell" where
  "cell_of v = (case v of None \<Rightarrow> None | Some c \<Rightarrow> c)"

datatype SignalType = BUY | SELL | HOLD | EXIT

text \<open>
  \<^verbatim>\<open>Signal\<close>.  The timestamp (the row label, or the clock) is left out.
\<close>

record signal =
  symbol :: string
  signal_type :: SignalType
  price :: cell
  confidence :: real
  indicators :: "(string \<times> cell) list"
  reason :: string
  stop_loss :: "cell option"
  take_profit :: "cell option"
  position_size :: "int option"

subsection \<open>Helpers of \<^verbatim>\<open>BaseStrategy\<close>\<close>

definition get_stop_loss :: "config \<Rightarrow> cell \<Rightarrow> cell \<Rightarrow> cell" where
  "get_stop_loss cfg entry atr =
     (let atr_mult = cfg_get (c_stop_loss_atr_mult cfg) (25 / 10)
      in csub entry (cmul atr (Some atr_mult)))"

definition get_take_profit :: "config \<Rightarrow> cell \<Rightarrow> cell" where
  "get_take_profit cfg entry =
     (let pct = cfg_get (c_profit_target_pct cfg) (10 / 100)
      in cmul entry (Some (1 + pct)))"

text \<open>
  \<^verbatim>\<open>check_volume_confirmation(data, threshold)\<close>.
\<close>

definition check_volume_confirmation :: "frame \<Rightarrow> real \<Rightarrow> bool" where
  "check_volume_confirmation data threshold =
     (case cols data ''volume'' of
        None \<Rightarrow> True
      | Some vol \<Rightarrow>
          if nrows data < 20 then True
          else (let avg_volume = last (rolling_mean 20 vol);
                    current_volume = last vol
                in cge current_volume (cmul avg_volume (Some threshold))))"

text \<open>
  \<^verbatim>\<open>check_daily_trend(daily_data)\<close>.  The fallback needs pandas' exponentially weighted
  mean, \<^verbatim>\<open>ewm(span=200, adjust=False).mean().iloc[-1]\<close>; it is the parameter \<open>ema200\<close>.
\<close>

definition check_daily_trend :: "(series \<Rightarrow> cell) \<Rightarrow> frame \<Rightarrow> error + bool" where
  "check_daily_trend ema200 daily_data =
     (if empty_frame daily_data \<or> nrows daily_data < 200 then Inr False
      else (let latest = iloc daily_data (nrows daily_data - 1)
            in case latest ''ema200'' of
                 Some e \<Rightarrow> (case latest ''close'' of
                              None \<Rightarrow> Inl (KeyError ''close'')
                            | Some c \<Rightarrow> Inr (cgt c e))
               | None \<Rightarrow> (case cols daily_data ''close'' of
                              None \<Rightarrow> Inl (KeyError ''close'')
                            | Some cl \<Rightarrow> Inr (cgt (last cl) (ema200 cl)))))"

text \<open>
  \<^verbatim>\<open>Series.is_monotonic_increasing\<close>: non-decreasing, and false as soon as a value is NaN.
\<close>

definition monotonic_increasing :: "series \<Rightarrow> bool" where
  "monotonic_increasing xs \<longleftrightarrow> None \<notin> set xs \<and> sorted (map the xs)"

definition tail :: "nat \<Rightarrow> 'a list \<Rightarrow> 'a list" where
  "tail k xs = drop (length xs - k) xs"

subsection \<open>The trend-following strategy\<close>

text \<open>\<^verbatim>\<open>_calculate_confidence(latest, data)\<close>, lines 155 to 191.\<close>

definition calculate_confidence :: "supertrend_strategy \<Rightarrow> row \<Rightarrow> frame \<Rightarrow> error + real" where
  "calculate_confidence self latest data =
     (case (case latest ''supertrend'' of
              None \<Rightarrow> Inr (1 / 2)
            | Some st \<Rightarrow>
                if cgt st (Some 0)
                then (case latest ''close'' of
                        None \<Rightarrow> Inl (KeyError ''close'')
                      | Some cl \<Rightarrow>
                          (let distance_pct = cdiv (csub cl st) st
                           in Inr (if cgt distance_pct (Some (1 / 100)) then 1 / 2 + 1 / 10 else 1 / 2)))
                else Inr (1 / 2)) of
        Inl e \<Rightarrow> Inl e
      | Inr c1 \<Rightarrow>
         (let c2 = (if check_volume_confirmation data (volume_threshold self) then c1 + 15 / 100 else c1);
              c3 = (case latest ''rsi_14'' of
                      None \<Rightarrow> c2
                    | Some rsi \<Rightarrow>
                        if cle (Some 40) rsi \<and> cle rsi (Some 60) then c2 + 15 / 100
                        else if cle (Some 30) rsi \<and> cle rsi (Some 70) then c2 + 10 / 100
                        else c2)
          in if 5 \<le> nrows data
             then (case cols data ''close'' of
                     None \<Rightarrow> Inl (KeyError ''close'')
                   | Some cl \<Rightarrow>
                       Inr (min (if monotonic_increasing (tail 5 cl) then c3 + 10 / 100 else c3) 1))
             else Inr (min c3 1)))"

text \<open>
  \<^verbatim>\<open>_calculate_trailing_stop(position, current_data)\<close>.  The result is an optional
  float: the SuperTrend cell, the ATR fallback, or the position's stop-loss entry.
\<close>

definition calculate_trailing_stop :: "supertrend_strategy \<Rightarrow> position \<Rightarrow> row \<Rightarrow> cell option" where
  "calculate_trailing_stop self pos current_data =
     (case current_data ''supertrend'' of
        Some st \<Rightarrow> Some st
      | None \<Rightarrow>
          (let entry = (case entry_price pos of None \<Rightarrow> Some 0 | Some e \<Rightarrow> e);
               atr = row_get current_data ''atr'' (Some 0)
           in if cgt atr (Some 0)
              then Some (cadd entry (cmul (cmul atr (Some (stop_loss_atr_mult self))) (Some (1 / 2))))
              else stop_loss_price pos))"

text \<open>
  \<^verbatim>\<open>should_exit(position, current_data)\<close>, lines 234 to 290.  The reason of three
  exits embeds a price formatted with \<^verbatim>\<open>:.2f\<close>; the formatter is the parameter
  \<open>fmt2\<close>, applied to the number that is being printed.
\<close>

definition should_exit ::
  "(real \<Rightarrow> string) \<Rightarrow> supertrend_strategy \<Rightarrow> position \<Rightarrow> row \<Rightarrow> bool \<times> string" where
  "should_exit fmt2 self pos current_data =
     (let entry = (case entry_price pos of None \<Rightarrow> Some 0 | Some e \<Rightarrow> e);
          current_price = row_get current_data ''close'' (Some 0)
      in if cle entry (Some 0) \<or> cle current_price (Some 0) then (False, '''')
         else (let pnl_pct = cdiv (csub current_price entry) entry
               in if (case current_data ''supertrend_direction'' of
                        None \<Rightarrow> False | Some d \<Rightarrow> cle d (Some 0))
                  then (True, ''SuperTrend turned bearish'')
                  else if (case current_data ''supertrend'' of
                        None \<Rightarrow> False | Some st \<Rightarrow> clt current_price st)
                  then (True, ''Price below SuperTrend line'')
                  else if truthy (stop_loss_price pos) \<and> cle current_price (cell_of (stop_loss_price pos))
                  then (True, ''Stop loss hit at '' @ fmt2 (the (cell_of (stop_loss_price pos))))
                  else if truthy (take_profit_price pos) \<and> cge current_price (cell_of (take_profit_price pos))
                  then (True, ''Profit target reached at '' @ fmt2 (the (cell_of (take_profit_price pos))))
                  else if trailing_stop_enabled self \<and> cge pnl_pct (Some (trailing_stop_activation self))
                  then (let trailing_stop = calculate_trailing_stop self pos current_data
                        in if truthy trailing_stop \<and> cle current_price (cell_of trailing_stop)
                           then (True, ''Trailing stop hit at '' @ fmt2 (the (cell_of trailing_stop)))
                           else (False, ''''))
                  else (False, '''')))"

text \<open>
  Lines 45 to 52 of \<^verbatim>\<open>calculate_supertrend\<close> on a frame value, and lines 45 to 87 on
  an object of a store: the parts of \<open>supertrend_prepare\<close> and
  \<open>calculate_supertrend_st\<close> after the ATR, named for the proofs.
\<close>

definition basic_bands :: "frame \<Rightarrow> string \<Rightarrow> real \<Rightarrow> error + frame" where
  "basic_bands df1 atrc m =
     (case cols df1 ''high'' of None \<Rightarrow> Inl (KeyError ''high'') | Some high \<Rightarrow>
      (case cols df1 ''low'' of None \<Rightarrow> Inl (KeyError ''low'') | Some low \<Rightarrow>
         (let hl2 = ser_div_const (ser_add high low) 2;
              df2 = set_col df1 ''supertrend_upperband''
                      (ser_add hl2 (ser_scale m (the (cols df1 atrc))));
              df3 = set_col df2 ''supertrend_lowerband''
                      (ser_sub hl2 (ser_scale m (the (cols df2 atrc))));
              df4 = set_const df3 ''supertrend'' 0;
              df5 = set_const df4 ''supertrend_direction'' 1
          in Inr df5)))"

definition bands_and_loop_st :: "store \<Rightarrow> nat \<Rightarrow> string \<Rightarrow> real \<Rightarrow> (error + nat) \<times> store" where
  "bands_and_loop_st h2 r atrc m =
     (case cols (deref h2 r) ''high'' of None \<Rightarrow> (Inl (KeyError ''high''), h2) | Some high \<Rightarrow>
      (case cols (deref h2 r) ''low'' of None \<Rightarrow> (Inl (KeyError ''low''), h2) | Some low \<Rightarrow>
         (let hl2 = ser_div_const (ser_add high low) 2;
              h3 = modify h2 r (\<lambda>d. set_col d ''supertrend_upperband''
                     (ser_add hl2 (ser_scale m (the (cols (deref h2 r) atrc)))));
              h4 = modify h3 r (\<lambda>d. set_col d ''supertrend_lowerband''
                     (ser_sub hl2 (ser_scale m (the (cols (deref h3 r) atrc)))));
              h5 = modify h4 r (\<lambda>d. set_const d ''supertrend'' 0);
              h6 = modify h5 r (\<lambda>d. set_const d ''supertrend_direction'' 1)
          in if 1 < nrows (deref h6 r) \<and> \<not> has_col (deref h6 r) ''close''
             then (Inl (KeyError ''close''), h6)
             else (Inr r,
                   fold (\<lambda>i h. modify h r (supertrend_step i)) [1..<nrows (deref h6 r)] h6))))"

text \<open>A multi-timeframe bundle: a dictionary from timeframe keys to frames.\<close>

type_synonym bar_bundle = "string \<Rightarrow> frame option"

text \<open>\<^verbatim>\<open>latest.get('symbol', 'UNKNOWN')\<close> on row \<open>i\<close> of a frame.\<close>

definition symbol_at :: "frame \<Rightarrow> nat \<Rightarrow> string" where
  "symbol_at df i = (case text_cols df ''symbol'' of None \<Rightarrow> ''UNKNOWN'' | Some xs \<Rightarrow> xs ! i)"

text \<open>\<^verbatim>\<open>_validate_entry(latest, primary_data, daily_data)\<close>, lines 94 to 117.\<close>

definition validate_entry ::
  "(series \<Rightarrow> cell) \<Rightarrow> supertrend_strategy \<Rightarrow> row \<Rightarrow> frame \<Rightarrow> frame option \<Rightarrow> error + bool" where
  "validate_entry ema200 self latest primary_data daily_data =
     (case (case latest ''supertrend'' of
              None \<Rightarrow> Inr True
            | Some st \<Rightarrow> (case latest ''close'' of
                           None \<Rightarrow> Inl (KeyError ''close'')
                         | Some cl \<Rightarrow> Inr (\<not> cle cl st))) of
        Inl e \<Rightarrow> Inl e
      | Inr False \<Rightarrow> Inr False
      | Inr True \<Rightarrow>
          if volume_confirmation self \<and>
             \<not> check_volume_confirmation primary_data (volume_threshold self)
          then Inr False
          else (case daily_data of
                  None \<Rightarrow> Inr True
                | Some dd \<Rightarrow>
                    if daily_trend_filter self \<and> \<not> empty_frame dd
                    then (case check_daily_trend ema200 dd of
                            Inl e \<Rightarrow> Inl e
                          | Inr ok \<Rightarrow> Inr ok)
                    else Inr True))"

text \<open>
  \<^verbatim>\<open>_create_buy_signal(latest, data)\<close>, lines 119 to 153, for the row \<open>i\<close> of \<open>data\<close>.
  The default of \<^verbatim>\<open>latest.get('atr', latest['close'] * 0.02)\<close> is evaluated before
  the lookup, so a row without \<^verbatim>\<open>close\<close> raises.
\<close>

definition create_buy_signal :: "supertrend_strategy \<Rightarrow> nat \<Rightarrow> frame \<Rightarrow> error + signal" where
  "create_buy_signal self i data =
     (let latest = iloc data i
      in case calculate_confidence self latest data of
           Inl e \<Rightarrow> Inl e
         | Inr conf \<Rightarrow>
             (case latest ''close'' of
                None \<Rightarrow> Inl (KeyError ''close'')
              | Some cl \<Rightarrow>
                  (let atr = row_get latest ''atr'' (cmul cl (Some (2 / 100)));
                       sl = get_stop_loss (config self) cl atr;
                       tp = get_take_profit (config self) cl
                   in Inr \<lparr>symbol = symbol_at data i,
                           signal_type = BUY,
                           price = cl,
                           confidence = conf,
                           indicators =
                             [(''supertrend'', row_get latest ''supertrend'' (Some 0)),
                              (''supertrend_direction'', row_get latest ''supertrend_direction'' (Some 0)),
                              (''atr'', atr),
                              (''rsi'', row_get latest ''rsi_14'' (Some 50)),
                              (''volume'', row_get latest ''volume'' (Some 0))],
                           reason = ''SuperTrend turned bullish'',
                           stop_loss = Some sl,
                           take_profit = Some tp,
                           position_size = None\<rparr>)))"

text \<open>\<^verbatim>\<open>SuperTrendStrategy.generate_signals(data)\<close>, lines 45 to 92.\<close>

definition generate_signals ::
  "(series \<Rightarrow> cell) \<Rightarrow> supertrend_strategy \<Rightarrow> bar_bundle \<Rightarrow> error + signal list" where
  "generate_signals ema200 self data =
     (let first = data ''15min'';
          primary = (case first of
                       None \<Rightarrow> data ''primary''
                     | Some df \<Rightarrow> if empty_frame df then data ''primary'' else first)
      in case primary of
           None \<Rightarrow> Inr []
         | Some pd0 \<Rightarrow>
             if empty_frame pd0 then Inr []
             else (let daily_data = data ''daily''
                   in case (if \<not> has_col pd0 ''supertrend_direction''
                            then strategy_calculate_supertrend self pd0 else Inr pd0) of
                        Inl e \<Rightarrow> Inl e
                      | Inr primary_data \<Rightarrow>
                          (let n = nrows primary_data;
                               latest = iloc primary_data (n - 1)
                           in if 1 < n
                              then (case iloc primary_data (n - 2) ''supertrend_direction'' of
                                      None \<Rightarrow> Inl (KeyError ''supertrend_direction'')
                                    | Some prev_dir \<Rightarrow>
                                        if cle prev_dir (Some 0) \<and>
                                           cgt (cell_of (latest ''supertrend_direction'')) (Some 0)
                                        then (case validate_entry ema200 self latest primary_data daily_data of
                                                Inl e \<Rightarrow> Inl e
                                              | Inr False \<Rightarrow> Inr []
                                              | Inr True \<Rightarrow>
                                                  (case create_buy_signal self (n - 1) primary_data of
                                                     Inl e \<Rightarrow> Inl e
                                                   | Inr s \<Rightarrow> Inr [s]))
                                        else Inr [])
                              else Inr [])))"

subsection \<open>The momentum strategy\<close>

text \<open>\<^verbatim>\<open>MacdRsiStrategy\<close>; its fields carry the prefix \<open>m_\<close> where the name is taken.\<close>

record macd_rsi_strategy =
  m_name :: string
  m_config :: config
  m_enabled :: bool
  rsi_min :: real
  rsi_max :: real
  macd_threshold :: real
  bb_filter :: bool
  m_daily_trend_filter :: bool
  m_profit_target_pct :: real
  m_stop_loss_atr_mult :: real

definition MacdRsiStrategy :: "config \<Rightarrow> macd_rsi_strategy" where
  "MacdRsiStrategy cfg =
     \<lparr>m_name = ''MACD_RSI'',
      m_config = cfg,
      m_enabled = cfg_get (c_enabled cfg) True,
      rsi_min = cfg_get (c_rsi_min cfg) 40,
      rsi_max = cfg_get (c_rsi_max cfg) 70,
      macd_threshold = cfg_get (c_macd_threshold cfg) 0,
      bb_filter = cfg_get (c_bb_filter cfg) True,
      m_daily_trend_filter = cfg_get (c_daily_trend_filter cfg) True,
      m_profit_target_pct = cfg_get (c_profit_target_pct cfg) (8 / 100),
      m_stop_loss_atr_mult = cfg_get (c_stop_loss_atr_mult cfg) (28 / 10)\<rparr>"

text \<open>
  The truth value of a DataFrame: pandas refuses to give one and raises
  \<^verbatim>\<open>ValueError\<close> ("The truth value of a DataFrame is ambiguous"), for every frame,
  empty or not.  \<^verbatim>\<open>a or b\<close> asks for the truth value of \<open>a\<close> unless \<open>a\<close> is
  \<^verbatim>\<open>None\<close>, and \<^verbatim>\<open>not a\<close> does the same.
\<close>

definition frame_truth :: "frame \<Rightarrow> error + bool" where
  "frame_truth df = Inl ValueError"

definition truth_of :: "frame option \<Rightarrow> error + bool" where
  "truth_of a = (case a of None \<Rightarrow> Inr False | Some df \<Rightarrow> frame_truth df)"

definition or_frames :: "frame option \<Rightarrow> frame option \<Rightarrow> error + frame option" where
  "or_frames a b = (case truth_of a of Inl e \<Rightarrow> Inl e | Inr t \<Rightarrow> Inr (if t then a else b))"

text \<open>\<^verbatim>\<open>MacdRsiStrategy._check_entry_conditions\<close>, lines 73 to 104.\<close>

definition macd_check_entry_conditions ::
  "(series \<Rightarrow> cell) \<Rightarrow> macd_rsi_strategy \<Rightarrow> row \<Rightarrow> frame \<Rightarrow> frame option \<Rightarrow> error + bool" where
  "macd_check_entry_conditions ema200 self latest primary_data daily_data =
     (let macd_line = row_get latest ''macd_line'' (Some 0);
          macd_signal = row_get latest ''macd_signal'' (Some 0)
      in if cle macd_line (Some (macd_threshold self)) \<or> cle macd_signal (Some (macd_threshold self))
         then Inr False
         else (let rsi = row_get latest ''rsi_14'' (Some 50)
               in if \<not> (cle (Some (rsi_min self)) rsi \<and> cle rsi (Some (rsi_max self)))
                  then Inr False
                  else (case (if bb_filter self
                              then (case latest ''close'' of
                                      None \<Rightarrow> Inl (KeyError ''close'')
                                    | Some cl \<Rightarrow> Inr (\<not> clt cl (row_get latest ''bb_lower'' (Some 0))))
                              else Inr True) of
                          Inl e \<Rightarrow> Inl e
                        | Inr False \<Rightarrow> Inr False
                        | Inr True \<Rightarrow>
                            (case daily_data of
                               None \<Rightarrow> Inr True
                             | Some dd \<Rightarrow>
                                 if m_daily_trend_filter self
                                 then check_daily_trend ema200 dd
                                 else Inr True))))"

text \<open>\<^verbatim>\<open>MacdRsiStrategy._calculate_confidence\<close>, lines 143 to 173.\<close>

definition macd_calculate_confidence :: "macd_rsi_strategy \<Rightarrow> row \<Rightarrow> frame \<Rightarrow> error + real" where
  "macd_calculate_confidence self latest data =
     (let macd_line = row_get latest ''macd_line'' (Some 0);
          macd_signal = row_get latest ''macd_signal'' (Some 0);
          c1 = (if cgt macd_line macd_signal then 1 / 2 + 15 / 100 else 1 / 2);
          rsi = row_get latest ''rsi_14'' (Some 50);
          c2 = (if cle (Some 45) rsi \<and> cle rsi (Some 55) then c1 + 15 / 100
                else if cle (Some 40) rsi \<and> cle rsi (Some 60) then c1 + 10 / 100
                else c1);
          bb_lower = row_get latest ''bb_lower'' (Some 0);
          bb_upper = row_get latest ''bb_upper'' (Some 0)
      in case (if cgt bb_upper bb_lower
               then (case latest ''close'' of
                       None \<Rightarrow> Inl (KeyError ''close'')
                     | Some cl \<Rightarrow>
                         (let bb_position = cdiv (csub cl bb_lower) (csub bb_upper bb_lower)
                          in Inr (if cle (Some (2 / 10)) bb_position \<and> cle bb_position (Some (5 / 10))
                                  then c2 + 10 / 100 else c2)))
               else Inr c2) of
           Inl e \<Rightarrow> Inl e
         | Inr c3 \<Rightarrow>
             Inr (min (if check_volume_confirmation data (12 / 10) then c3 + 10 / 100 else c3) 1))"

text \<open>\<^verbatim>\<open>MacdRsiStrategy._create_buy_signal\<close>, lines 106 to 141.\<close>

definition macd_create_buy_signal :: "macd_rsi_strategy \<Rightarrow> nat \<Rightarrow> frame \<Rightarrow> error + signal" where
  "macd_create_buy_signal self i data =
     (let latest = iloc data i
      in case macd_calculate_confidence self latest data of
           Inl e \<Rightarrow> Inl e
         | Inr conf \<Rightarrow>
             (case latest ''close'' of
                None \<Rightarrow> Inl (KeyError ''close'')
              | Some cl \<Rightarrow>
                  (let atr = row_get latest ''atr'' (cmul cl (Some (2 / 100)));
                       sl = get_stop_loss (m_config self) cl atr;
                       tp = get_take_profit (m_config self) cl
                   in Inr \<lparr>symbol = symbol_at data i,
                           signal_type = BUY,
                           price = cl,
                           confidence = conf,
                           indicators =
                             [(''macd_line'', row_get latest ''macd_line'' (Some 0)),
                              (''macd_signal'', row_get latest ''macd_signal'' (Some 0)),
                              (''rsi_14'', row_get latest ''rsi_14'' (Some 50)),
                              (''bb_lower'', row_get latest ''bb_lower'' (Some 0)),
                              (''bb_upper'', row_get latest ''bb_upper'' (Some 0)),
                              (''atr'', atr)],
                           reason = ''MACD positive, RSI in range, above BB lower'',
                           stop_loss = Some sl,
                           take_profit = Some tp,
                           position_size = None\<rparr>)))"

text \<open>
  \<^verbatim>\<open>MacdRsiStrategy.generate_signals(data)\<close>, lines 42 to 71.  Line 55 is
  \<^verbatim>\<open>data.get('15min') or data.get('primary')\<close>.
\<close>

definition macd_generate_signals ::
  "(series \<Rightarrow> cell) \<Rightarrow> macd_rsi_strategy \<Rightarrow> bar_bundle \<Rightarrow> error + signal list" where
  "macd_generate_signals ema200 self data =
     (case or_frames (data ''15min'') (data ''primary'') of
        Inl e \<Rightarrow> Inl e
      | Inr None \<Rightarrow> Inr []
      | Inr (Some primary_data) \<Rightarrow>
          if empty_frame primary_data then Inr []
          else (let daily_data = data ''daily'';
                    latest = iloc primary_data (nrows primary_data - 1)
                in case macd_check_entry_conditions ema200 self latest primary_data daily_data of
                     Inl e \<Rightarrow> Inl e
                   | Inr False \<Rightarrow> Inr []
                   | Inr True \<Rightarrow>
                       (case macd_create_buy_signal self (nrows primary_data - 1) primary_data of
                          Inl e \<Rightarrow> Inl e
                        | Inr s \<Rightarrow> Inr [s])))"

text \<open>\<^verbatim>\<open>MacdRsiStrategy.calculate_position_size\<close>, lines 175 to 204.\<close>

definition macd_calculate_position_size ::
  "macd_rsi_strategy \<Rightarrow> string \<Rightarrow> real \<Rightarrow> real \<Rightarrow> real \<Rightarrow> int" where
  "macd_calculate_position_size self smb px atr available_capital =
     (if atr \<le> 0 \<or> px \<le> 0 then 0
      else (let risk_per_trade = cfg_get (c_risk_per_trade (m_config self)) (1 / 100);
                risk_amount = available_capital * risk_per_trade;
                stop_loss_distance = atr * m_stop_loss_atr_mult self;
                q = (if stop_loss_distance > 0 then py_int (risk_amount / stop_loss_distance) else 0);
                max_position_size = cfg_get (c_max_position_size (m_config self)) (20 / 100);
                max_qty = py_int ((available_capital * max_position_size) / px)
            in min q max_qty))"

text \<open>\<^verbatim>\<open>MacdRsiStrategy.should_exit\<close>, lines 206 to 247.\<close>

definition macd_should_exit ::
  "(real \<Rightarrow> string) \<Rightarrow> macd_rsi_strategy \<Rightarrow> position \<Rightarrow> row \<Rightarrow> bool \<times> string" where
  "macd_should_exit fmt2 self pos current_data =
     (let entry = (case entry_price pos of None \<Rightarrow> Some 0 | Some e \<Rightarrow> e);
          current_price = row_get current_data ''close'' (Some 0)
      in if cle entry (Some 0) \<or> cle current_price (Some 0) then (False, '''')
         else (let rsi = row_get current_data ''rsi_14'' (Some 50);
                   bb_upper = row_get current_data ''bb_upper'' (Some 0)
               in if clt rsi (Some 70) \<and> clt current_price bb_upper
                  then (True, ''Momentum weakening (RSI < 70, price < BB upper)'')
                  else if (case current_data ''supertrend_direction'' of
                             None \<Rightarrow> False | Some d \<Rightarrow> clt d (Some 0))
                  then (True, ''SuperTrend turned bearish'')
                  else if truthy (stop_loss_price pos) \<and> cle current_price (cell_of (stop_loss_price pos))
                  then (True, ''Stop loss hit at '' @ fmt2 (the (cell_of (stop_loss_price pos))))
                  else if truthy (take_profit_price pos) \<and> cge current_price (cell_of (take_profit_price pos))
                  then (True, ''Profit target reached at '' @ fmt2 (the (cell_of (take_profit_price pos))))
                  else if (case current_data ''chandelier_exit'' of
                             None \<Rightarrow> False | Some ce \<Rightarrow> clt current_price ce)
                  then (True, ''Chandelier Exit triggered'')
                  else (False, '''')))"

section \<open>The trading engine\<close>

text \<open>
  The engine holds a list of strategies of either class and dispatches on the class.
\<close>

datatype strategy_obj = ST supertrend_strategy | MR macd_rsi_strategy

fun strategy_name :: "strategy_obj \<Rightarrow> string" where
  "strategy_name (ST s) = name s"
| "strategy_name (MR s) = m_name s"

text \<open>
  \<^verbatim>\<open>calculate_position_size\<close> receives numpy floats from the engine.  On numbers it
  is the function above.  With a NaN price the cap \<^verbatim>\<open>int(NaN)\<close> raises
  \<^verbatim>\<open>ValueError\<close> unless the ATR guard returned 0 first; with a NaN ATR and a price
  the stop distance is NaN, the quantity 0, and the cap is still applied.
\<close>

definition size_on_cells ::
  "(real \<Rightarrow> real \<Rightarrow> int) \<Rightarrow> (real \<Rightarrow> int) \<Rightarrow> cell \<Rightarrow> cell \<Rightarrow> error + int" where
  "size_on_cells f cap_qty px atr =
     (case px of
        Some p \<Rightarrow> (case atr of
                     Some a \<Rightarrow> Inr (f p a)
                   | None \<Rightarrow> Inr (if p \<le> 0 then 0 else min 0 (cap_qty p)))
      | None \<Rightarrow> (case atr of
                   Some a \<Rightarrow> if a \<le> 0 then Inr 0 else Inl ValueError
                 | None \<Rightarrow> Inl ValueError))"

fun strat_position_size :: "strategy_obj \<Rightarrow> string \<Rightarrow> cell \<Rightarrow> cell \<Rightarrow> real \<Rightarrow> error + int" where
  "strat_position_size (ST s) smb px atr cap =
     size_on_cells (\<lambda>p a. calculate_position_size s smb p a cap)
       (\<lambda>p. py_int (cap * cfg_get (c_max_position_size (config s)) (20 / 100) / p)) px atr"
| "strat_position_size (MR s) smb px atr cap =
     size_on_cells (\<lambda>p a. macd_calculate_position_size s smb p a cap)
       (\<lambda>p. py_int (cap * cfg_get (c_max_position_size (m_config s)) (20 / 100) / p)) px atr"

fun strat_should_exit :: "(real \<Rightarrow> string) \<Rightarrow> strategy_obj \<Rightarrow> position \<Rightarrow> row \<Rightarrow> bool \<times> string" where
  "strat_should_exit fmt2 (ST s) pos r = should_exit fmt2 s pos r"
| "strat_should_exit fmt2 (MR s) pos r = macd_should_exit fmt2 s pos r"

fun strat_generate_signals :: "(series \<Rightarrow> cell) \<Rightarrow> strategy_obj \<Rightarrow> bar_bundle \<Rightarrow> error + signal list" where
  "strat_generate_signals ema200 (ST s) data = generate_signals ema200 s data"
| "strat_generate_signals ema200 (MR s) data = macd_generate_signals ema200 s data"

text \<open>\<^verbatim>\<open>str.lower()\<close> on ASCII, and \<^verbatim>\<open>str.split()[0]\<close>: the first run of non-blanks.\<close>

definition lower_char :: "char \<Rightarrow> char" where
  "lower_char c = (let n = (of_char c :: nat) in if 65 \<le> n \<and> n \<le> 90 then char_of (n + 32) else c)"

definition lower :: "string \<Rightarrow> string" where
  "lower s = map lower_char s"

definition is_space :: "char \<Rightarrow> bool" where
  "is_space c \<longleftrightarrow> (let n = (of_char c :: nat) in n = 32 \<or> (9 \<le> n \<and> n \<le> 13))"

definition first_word :: "string \<Rightarrow> error + string" where
  "first_word s =
     (case dropWhile is_space s of
        [] \<Rightarrow> Inl IndexError
      | t \<Rightarrow> Inr (takeWhile (\<lambda>c. \<not> is_space c) t))"

text \<open>\<^verbatim>\<open>_get_strategy_by_name(name)\<close>, lines 391 to 396.\<close>

definition get_strategy_by_name :: "strategy_obj list \<Rightarrow> string \<Rightarrow> strategy_obj option" where
  "get_strategy_by_name strats nm = find (\<lambda>s. lower (strategy_name s) = lower nm) strats"

text \<open>
  The engine's own state, and the world around it: the risk manager, the portfolio, the
  data manager, the broker, the two library functions the strategies need, and a log
  of the calls made to the data manager, the strategies, the broker and the
  portfolio's position operations (the yes/no questions to the risk manager and the
  capital query are not logged).  \<^verbatim>\<open>_add_indicators\<close> builds on \<^verbatim>\<open>pandas_ta\<close>, which
  is not part of the repository, and never raises: it is a function of the world.
\<close>

datatype call =
    GetPosition string
  | GetHistorical string string
  | GenerateSignals string
  | SizePosition string
  | ShouldExit string
  | PlaceBuyOrder string int
  | AddPosition string
  | GetCurrentPrice string
  | PlaceSellOrder string int
  | ClosePosition string

record engine =
  strategies :: "strategy_obj list"
  order_type :: "string option"

record world =
  can_trade :: bool
  can_open_position :: bool
  available_capital :: real
  positions :: "string \<Rightarrow> position option"
  historical_data :: "string \<Rightarrow> string \<Rightarrow> error + frame option"
  add_indicators :: "frame \<Rightarrow> frame"
  buy_order_id :: "string \<Rightarrow> int \<Rightarrow> string option"
  sell_order_id :: "string \<Rightarrow> int \<Rightarrow> string option"
  current_price :: "string \<Rightarrow> cell option"
  lib_ema200 :: "series \<Rightarrow> cell"
  lib_fmt2 :: "real \<Rightarrow> string"
  calls :: "call list"

definition log_call :: "call \<Rightarrow> world \<Rightarrow> world" where
  "log_call c w = w\<lparr>calls := calls w @ [c]\<rparr>"

record cycle_result =
  symbols_analyzed :: nat
  signals_generated :: nat
  orders_placed :: nat
  orders_failed :: nat
  positions_exited :: nat
  errors :: "string list"

definition error_text :: "error \<Rightarrow> string" where
  "error_text e =
     (case e of
        KeyError k \<Rightarrow> [CHR 0x27] @ k @ [CHR 0x27]
      | ValueError \<Rightarrow> ''The truth value of a DataFrame is ambiguous. Use a.empty, a.bool(), a.item(), a.any() or a.all().''
      | IndexError \<Rightarrow> ''list index out of range'')"

text \<open>
  \<^verbatim>\<open>_get_symbol_data(symbol)\<close>, lines 199 to 225: three fetches; an exception in any
  of them gives the empty dictionary.
\<close>

definition fetch_one :: "world \<Rightarrow> string \<Rightarrow> string \<Rightarrow> (error + frame option) \<times> world" where
  "fetch_one w smb tf =
     (case historical_data w smb tf of
        Inl e \<Rightarrow> (Inl e, log_call (GetHistorical smb tf) w)
      | Inr None \<Rightarrow> (Inr None, log_call (GetHistorical smb tf) w)
      | Inr (Some df) \<Rightarrow>
          (Inr (if empty_frame df then None else Some (add_indicators w df)),
           log_call (GetHistorical smb tf) w))"

definition get_symbol_data :: "world \<Rightarrow> string \<Rightarrow> bar_bundle \<times> world" where
  "get_symbol_data w smb =
     (case fetch_one w smb ''day'' of
        (Inl e, w1) \<Rightarrow> (Map.empty, w1)
      | (Inr daily, w1) \<Rightarrow>
          (case fetch_one w1 smb ''hour'' of
             (Inl e, w2) \<Rightarrow> (Map.empty, w2)
           | (Inr hourly, w2) \<Rightarrow>
               (case fetch_one w2 smb ''15minute'' of
                  (Inl e, w3) \<Rightarrow> (Map.empty, w3)
                | (Inr fifteen, w3) \<Rightarrow>
                    ((\<lambda>k. if k = ''daily'' then daily
                          else if k = ''hourly'' then hourly
                          else if k = ''15min'' \<or> k = ''primary'' then fifteen
                          else None), w3))))"

text \<open>
  The guard \<^verbatim>\<open>if not data or not data.get('15min') or data['15min'].empty: return\<close>
  of lines 147 and 181.  Its result is \<open>Inr True\<close> for "return", \<open>Inr False\<close> for
  "go on", or the error raised while it is evaluated.
\<close>

definition no_data_guard :: "bar_bundle \<Rightarrow> error + bool" where
  "no_data_guard data =
     (if data = Map.empty then Inr True
      else (case truth_of (data ''15min'') of
              Inl e \<Rightarrow> Inl e
            | Inr t \<Rightarrow> if \<not> t then Inr True
                       else Inr (empty_frame (the (data ''15min'')))))"

text \<open>\<^verbatim>\<open>_execute_sell_signal\<close>, lines 358 to 389; an exception inside gives \<open>False\<close>.\<close>

definition execute_sell_signal :: "engine \<Rightarrow> world \<Rightarrow> string \<Rightarrow> position \<Rightarrow> string \<Rightarrow> bool \<times> world" where
  "execute_sell_signal eng w smb pos rsn =
     (let w1 = log_call (GetCurrentPrice smb) w
      in if \<not> truthy (current_price w smb) then (False, w1)
         else (case order_type eng of
                 None \<Rightarrow> (False, w1)
               | Some ot \<Rightarrow>
                   (let w2 = log_call (PlaceSellOrder smb (qty pos)) w1
                    in case sell_order_id w smb (qty pos) of
                         None \<Rightarrow> (False, w2)
                       | Some oid \<Rightarrow>
                           if oid = [] then (False, w2)
                           else (True, log_call (ClosePosition smb)
                                         (w2\<lparr>positions := (positions w2)(smb := None)\<rparr>)))))"

text \<open>\<^verbatim>\<open>_check_exit_conditions\<close>, lines 175 to 197.\<close>

definition check_exit_conditions ::
  "engine \<Rightarrow> world \<Rightarrow> string \<Rightarrow> position \<Rightarrow> cycle_result \<Rightarrow> error option \<times> cycle_result \<times> world" where
  "check_exit_conditions eng w smb pos results =
     (case get_symbol_data w smb of (data, w1) \<Rightarrow>
        (case no_data_guard data of
           Inl e \<Rightarrow> (Some e, results, w1)
         | Inr True \<Rightarrow> (None, results, w1)
         | Inr False \<Rightarrow>
             (let f15 = the (data ''15min'');
                  current_data = iloc f15 (nrows f15 - 1)
              in case get_strategy_by_name (strategies eng) (strategy pos) of
                   None \<Rightarrow> (None, results, w1)
                 | Some st \<Rightarrow>
                     (let w2 = log_call (ShouldExit (strategy_name st)) w1
                      in case strat_should_exit (lib_fmt2 w) st pos current_data of
                           (False, rsn) \<Rightarrow> (None, results, w2)
                         | (True, rsn) \<Rightarrow>
                             (case execute_sell_signal eng w2 smb pos rsn of
                                (True, w3) \<Rightarrow>
                                  (None, results\<lparr>positions_exited := positions_exited results + 1\<rparr>, w3)
                              | (False, w3) \<Rightarrow> (None, results, w3))))))"

text \<open>\<^verbatim>\<open>_validate_signal\<close>, lines 277 to 298.\<close>

definition validate_signal :: "world \<Rightarrow> signal \<Rightarrow> bool" where
  "validate_signal w sg =
     (if \<not> can_open_position w then False
      else (let size = (case position_size sg of None \<Rightarrow> 1 | Some k \<Rightarrow> if k = 0 then 1 else k);
                estimated_cost = cmul (price sg) (Some (real_of_int size))
            in if cgt estimated_cost (Some (available_capital w)) then False
               else if confidence sg < 1 / 2 then False
               else True))"

text \<open>The fallback sizing of lines 319 to 321.\<close>

definition fallback_qty :: "cell \<Rightarrow> real \<Rightarrow> int" where
  "fallback_qty atr cap =
     (case atr of
        None \<Rightarrow> 0
      | Some a \<Rightarrow> (let risk_amount = cap * (1 / 100); stop_distance = a * (25 / 10)
                   in if stop_distance > 0 then py_int (risk_amount / stop_distance) else 0))"

text \<open>
  \<^verbatim>\<open>_execute_buy_signal\<close>, lines 300 to 356.  Every exception inside is caught and
  gives \<open>False\<close>: a bundle without \<^verbatim>\<open>15min\<close>, a frame without rows, a reason without
  a word, a failing sizing, an engine configuration without an order type.
\<close>

definition execute_buy_signal :: "engine \<Rightarrow> world \<Rightarrow> signal \<Rightarrow> bar_bundle \<Rightarrow> bool \<times> world" where
  "execute_buy_signal eng w sg data =
     (case data ''15min'' of
        None \<Rightarrow> (False, w)
      | Some f15 \<Rightarrow>
          if nrows f15 = 0 then (False, w)
          else (let latest_data = iloc f15 (nrows f15 - 1);
                    atr = row_get latest_data ''atr'' (cmul (price sg) (Some (2 / 100)));
                    cap = available_capital w
                in case first_word (reason sg) of
                     Inl e \<Rightarrow> (False, w)
                   | Inr nm \<Rightarrow>
                       (case (case get_strategy_by_name (strategies eng) nm of
                                Some st \<Rightarrow> (strat_position_size st (symbol sg) (price sg) atr cap,
                                            log_call (SizePosition (strategy_name st)) w)
                              | None \<Rightarrow> (Inr (fallback_qty atr cap), w)) of
                          (Inl e, w1) \<Rightarrow> (False, w1)
                        | (Inr q, w1) \<Rightarrow>
                            if q \<le> 0 then (False, w1)
                            else (case order_type eng of
                                    None \<Rightarrow> (False, w1)
                                  | Some ot \<Rightarrow>
                                      (let w2 = log_call (PlaceBuyOrder (symbol sg) q) w1
                                       in case buy_order_id w (symbol sg) q of
                                            None \<Rightarrow> (False, w2)
                                          | Some oid \<Rightarrow>
                                              if oid = [] then (False, w2)
                                              else (True,
                                                log_call (AddPosition (symbol sg))
                                                  (w2\<lparr>positions := (positions w2)(symbol sg \<mapsto>
                                                     \<lparr>pos_symbol = symbol sg,
                                                      qty = q,
                                                      entry_price = Some (price sg),
                                                      strategy = nm,
                                                      stop_loss_price = stop_loss sg,
                                                      take_profit_price = take_profit sg,
                                                      order_id = oid\<rparr>)\<rparr>)))))))"

text \<open>
  \<^verbatim>\<open>_check_entry_signals\<close>, lines 141 to 173: the signals of all strategies, in
  registration order (a strategy that raises contributes none), then each BUY signal
  validated and executed.
\<close>

fun collect_signals :: "world \<Rightarrow> bar_bundle \<Rightarrow> strategy_obj list \<Rightarrow> signal list \<times> world" where
  "collect_signals w data [] = ([], w)"
| "collect_signals w data (st # rest) =
     (let w1 = log_call (GenerateSignals (strategy_name st)) w;
          sigs = (case strat_generate_signals (lib_ema200 w) st data of Inl e \<Rightarrow> [] | Inr xs \<Rightarrow> xs)
      in case collect_signals w1 data rest of (others, w2) \<Rightarrow> (sigs @ others, w2))"

fun process_signals ::
  "engine \<Rightarrow> world \<Rightarrow> bar_bundle \<Rightarrow> signal list \<Rightarrow> cycle_result \<Rightarrow> cycle_result \<times> world" where
  "process_signals eng w data [] results = (results, w)"
| "process_signals eng w data (sg # rest) results =
     (if signal_type sg = BUY
      then (let r1 = results\<lparr>signals_generated := signals_generated results + 1\<rparr>
            in if \<not> validate_signal w sg then process_signals eng w data rest r1
               else (case execute_buy_signal eng w sg data of
                       (True, w1) \<Rightarrow>
                         process_signals eng w1 data rest (r1\<lparr>orders_placed := orders_placed r1 + 1\<rparr>)
                     | (False, w1) \<Rightarrow>
                         process_signals eng w1 data rest (r1\<lparr>orders_failed := orders_failed r1 + 1\<rparr>)))
      else process_signals eng w data rest results)"

definition check_entry_signals ::
  "engine \<Rightarrow> world \<Rightarrow> string \<Rightarrow> cycle_result \<Rightarrow> error option \<times> cycle_result \<times> world" where
  "check_entry_signals eng w smb results =
     (case get_symbol_data w smb of (data, w1) \<Rightarrow>
        (case no_data_guard data of
           Inl e \<Rightarrow> (Some e, results, w1)
         | Inr True \<Rightarrow> (None, results, w1)
         | Inr False \<Rightarrow>
             (case collect_signals w1 data (strategies eng) of (all_signals, w2) \<Rightarrow>
                (case process_signals eng w2 data all_signals results of (r, w3) \<Rightarrow> (None, r, w3)))))"

text \<open>
  \<^verbatim>\<open>execute_cycle(symbols)\<close>, lines 90 to 139.  The body of the loop is guarded by
  \<^verbatim>\<open>try ... except Exception\<close>, which turns an error into an entry of the result.
\<close>

definition process_symbol :: "engine \<Rightarrow> string \<Rightarrow> cycle_result \<times> world \<Rightarrow> cycle_result \<times> world" where
  "process_symbol eng smb rw =
     (case rw of (results, w) \<Rightarrow>
        (let w1 = log_call (GetPosition smb) w
         in case (case positions w smb of
                    Some pos \<Rightarrow> check_exit_conditions eng w1 smb pos results
                  | None \<Rightarrow> check_entry_signals eng w1 smb results) of
              (None, r, w2) \<Rightarrow> (r, w2)
            | (Some e, r, w2) \<Rightarrow> (r\<lparr>errors := errors r @ [smb @ '': '' @ error_text e]\<rparr>, w2)))"

definition execute_cycle :: "engine \<Rightarrow> world \<Rightarrow> string list \<Rightarrow> cycle_result \<times> world" where
  "execute_cycle eng w symbols =
     (let results = \<lparr>symbols_analyzed = length symbols, signals_generated = 0, orders_placed = 0,
                     orders_failed = 0, positions_exited = 0, errors = []\<rparr>
      in if \<not> can_trade w
         then (results\<lparr>errors := errors results @ [''Trading blocked by risk manager'']\<rparr>, w)
         else fold (process_symbol eng) symbols (results, w))"

text \<open>The symbols whose position was looked up, in the order of the log.\<close>

definition visited :: "call list \<Rightarrow> string list" where
  "visited cs = List.map_filter (\<lambda>c. case c of GetPosition s \<Rightarrow> Some s | _ \<Rightarrow> None) cs"

text \<open>
  A world for the examples: trading allowed or not, ample capital, no open position,
  no market data, a broker that accepts every order.
\<close>

definition example_world :: "bool \<Rightarrow> world" where
  "example_world allowed =
     \<lparr>can_trade = allowed, can_open_position = True, available_capital = 100000,
      positions = Map.empty,
      historical_data = (\<lambda>smb tf. Inr None),
      add_indicators = (\<lambda>df. df),
      buy_order_id = (\<lambda>smb q. Some ''B1''),
      sell_order_id = (\<lambda>smb q. Some ''S1''),
      current_price = (\<lambda>smb. Some (Some 100)),
      lib_ema200 = (\<lambda>xs. None),
      lib_fmt2 = (\<lambda>x. ''0.00''),
      calls = []\<rparr>"

definition example_engine :: engine where
  "example_engine =
     \<lparr>strategies = [ST (SuperTrendStrategy empty_config), MR (MacdRsiStrategy empty_config)],
      order_type = Some ''MARKET''\<rparr>"

section \<open>Verified properties\<close>

subsection \<open>Series helpers\<close>

lemma shift_length: "length (shift xs) = length xs"
  by (simp add: shift_def)

lemma shift_nth: "i < length xs \<Longrightarrow> shift xs ! i = (if i = 0 then None else xs ! (i - 1))"
  by (cases i) (auto simp: shift_def nth_butlast)

lemma true_range_length:
  "length hs = n \<Longrightarrow> length ls = n \<Longrightarrow> length cs = n \<Longrightarrow> length (true_range hs ls cs) = n"
  by (simp add: true_range_def row_max3_def ser_abs_def ser_sub_def shift_length Let_def)

lemma true_range_nth:
  assumes "length hs = n" "length ls = n" "length cs = n" "i < n"
  shows "true_range (map Some hs) (map Some ls) (map Some cs) ! i =
     Some (if i = 0 then hs ! 0 - ls ! 0
           else max (hs ! i - ls ! i) (max \<bar>hs ! i - cs ! (i - 1)\<bar> \<bar>ls ! i - cs ! (i - 1)\<bar>))"
  using assms
  by (auto simp: true_range_def row_max3_def ser_abs_def ser_sub_def shift_length shift_nth Let_def
      csub_def lift2_def cabs_def skip_max_def max_def)

lemma window_mean_Some:
  assumes "\<forall>j<length xs. xs ! j = Some (f j)" "i < length xs"
  shows "window_mean p xs i = (if p = 0 \<or> i + 1 < p then None
           else Some ((\<Sum>j = i + 1 - p..i. f j) / real p))"
proof (cases "p = 0 \<or> i + 1 < p")
  case True
  then show ?thesis by (auto simp: window_mean_def)
next
  case False
  define k where "k = i + 1 - p"
  have kp: "k + p = i + 1" "k + p \<le> length xs" using False assms(2) by (auto simp: k_def)
  let ?w = "take p (drop k xs)"
  have len: "length ?w = p" using kp by simp
  have nth: "\<And>j. j < p \<Longrightarrow> ?w ! j = Some (f (k + j))" using kp assms(1) by simp
  have nn: "None \<notin> set ?w"
  proof
    assume "None \<in> set ?w"
    then obtain j where "j < length ?w" "?w ! j = None" by (metis in_set_conv_nth)
    then show False using nth len by simp
  qed
  have "map the ?w = map (\<lambda>j. f (k + j)) [0..<p]"
    by (rule nth_equalityI) (use len nth in auto)
  then have "sum_list (map the ?w) = (\<Sum>j = 0..<p. f (k + j))"
    by (simp add: interv_sum_list_conv_sum_set_nat)
  also have "\<dots> = (\<Sum>j = k..<k + p. f j)"
    using sum.shift_bounds_nat_ivl[of f 0 k p] by (simp add: add.commute)
  also have "\<dots> = (\<Sum>j = k..i. f j)" using kp by (simp add: atLeastLessThanSuc_atLeastAtMost)
  finally have "sum_list (map the ?w) = (\<Sum>j = k..i. f j)" .
  then show ?thesis using False nn by (simp add: window_mean_def Let_def k_def)
qed

subsection \<open>Average true range\<close>

text \<open>
  Claim C8.  On a frame whose \<^verbatim>\<open>high\<close>, \<^verbatim>\<open>low\<close> and \<^verbatim>\<open>close\<close> columns hold numbers
  with \<open>low \<le> high\<close> in every row, \<open>calculate_atr\<close> returns a frame whose \<^verbatim>\<open>atr\<close>
  column has one cell per row.  The cell of row \<open>i\<close> is NaN (not zero) while fewer than
  \<open>period\<close> rows are available, that is for the first \<open>period - 1\<close> rows, and from
  then on the arithmetic mean of the true range of the last \<open>period\<close> rows, where the
  true range of a row is the largest of \<open>high - low\<close>, \<open>|high - previous close|\<close> and
  \<open>|low - previous close|\<close> (the first row has no previous close and its true range is
  \<open>high - low\<close>).  Every cell that is defined is non-negative.  A window of length 0
  leaves every cell NaN.
\<close>

theorem calculate_atr_spec:
  assumes "cols df ''high'' = Some (map Some hs)"
    and "cols df ''low'' = Some (map Some ls)"
    and "cols df ''close'' = Some (map Some cs)"
    and "length hs = n" and "length ls = n" and "length cs = n"
    and "\<forall>i<n. ls ! i \<le> hs ! i"
  shows "\<exists>out atr. calculate_atr df per = Inr out \<and> cols out ''atr'' = Some atr \<and> length atr = n \<and>
     (\<forall>i<n. atr ! i =
        (if per = 0 \<or> i + 1 < per then None
         else Some ((\<Sum>j = i + 1 - per..i.
                (if j = 0 then hs ! 0 - ls ! 0
                 else max (hs ! j - ls ! j) (max \<bar>hs ! j - cs ! (j - 1)\<bar> \<bar>ls ! j - cs ! (j - 1)\<bar>)))
              / real per))) \<and>
     (\<forall>i<n. \<forall>v. atr ! i = Some v \<longrightarrow> 0 \<le> v)"
proof -
  define T where "T = (\<lambda>j. if j = 0 then hs ! 0 - ls ! 0
      else max (hs ! j - ls ! j) (max \<bar>hs ! j - cs ! (j - 1)\<bar> \<bar>ls ! j - cs ! (j - 1)\<bar>))"
  let ?tr = "true_range (map Some hs) (map Some ls) (map Some cs)"
  let ?atr = "rolling_mean per ?tr"
  have len: "length ?tr = n" using assms(4-6) by (simp add: true_range_length)
  have trn: "\<forall>j<length ?tr. ?tr ! j = Some (T j)"
    using true_range_nth[OF assms(4-6)] len unfolding T_def by simp
  have out: "calculate_atr df per = Inr (set_col df ''atr'' ?atr)"
    using assms(1-3) by (simp add: calculate_atr_def)
  have c: "cols (set_col df ''atr'' ?atr) ''atr'' = Some ?atr" by (simp add: set_col_def)
  have l: "length ?atr = n" using len by (simp add: rolling_mean_def)
  have v: "\<forall>i<n. ?atr ! i = (if per = 0 \<or> i + 1 < per then None
         else Some ((\<Sum>j = i + 1 - per..i. T j) / real per))"
    using window_mean_Some[OF trn] len by (simp add: rolling_mean_def)
  have nonneg: "\<And>j. j < n \<Longrightarrow> 0 \<le> T j"
    using assms(7) by (auto simp: T_def max_def)
  have pos: "\<forall>i<n. \<forall>v. ?atr ! i = Some v \<longrightarrow> 0 \<le> v"
  proof (intro allI impI)
    fix i v assume i: "i < n" and s: "?atr ! i = Some v"
    then have np: "\<not> (per = 0 \<or> i + 1 < per)" and
      veq: "v = (\<Sum>j = i + 1 - per..i. T j) / real per"
      using v by (auto split: if_splits)
    have "0 \<le> (\<Sum>j = i + 1 - per..i. T j)"
      by (rule sum_nonneg) (use nonneg i in auto)
    then show "0 \<le> v" using veq by simp
  qed
  show ?thesis
    unfolding out using c l v pos unfolding T_def by (intro exI conjI) (rule refl, assumption+)
qed

theorem calculate_atr_spec_witness:
  "\<exists>out atr. calculate_atr
       (frame_of [\<lparr>b_high = 10, b_low = 8, b_close = 9, b_volume = 100\<rparr>,
                  \<lparr>b_high = 12, b_low = 9, b_close = 11, b_volume = 100\<rparr>,
                  \<lparr>b_high = 11, b_low = 7, b_close = 8, b_volume = 100\<rparr>]) 2 = Inr out \<and>
     cols out ''atr'' = Some atr \<and> length atr = 3 \<and>
     atr ! 0 = None \<and> atr ! 1 = Some (5 / 2) \<and> atr ! 2 = Some (7 / 2) \<and>
     (\<forall>i<3. \<forall>v. atr ! i = Some v \<longrightarrow> 0 \<le> v)"
proof -
  let ?df = "frame_of [\<lparr>b_high = 10, b_low = 8, b_close = 9, b_volume = 100\<rparr>,
                  \<lparr>b_high = 12, b_low = 9, b_close = 11, b_volume = 100\<rparr>,
                  \<lparr>b_high = 11, b_low = 7, b_close = 8, b_volume = 100\<rparr>]"
  have h: "cols ?df ''high'' = Some (map Some [10, 12, 11])" by (simp add: frame_of_def)
  have l: "cols ?df ''low'' = Some (map Some [8, 9, 7])" by (simp add: frame_of_def)
  have c: "cols ?df ''close'' = Some (map Some [9, 11, 8])" by (simp add: frame_of_def)
  have o: "\<forall>i<3. [8, 9, 7 :: real] ! i \<le> [10, 12, 11] ! i"
    by (simp add: numeral_3_eq_3 less_Suc_eq)
  from calculate_atr_spec[OF h l c _ _ _ o, of 2]
  obtain out atr where r: "calculate_atr ?df 2 = Inr out" "cols out ''atr'' = Some atr" "length atr = 3"
    and v: "\<forall>i<3. atr ! i =
        (if (2::nat) = 0 \<or> i + 1 < 2 then None
         else Some ((\<Sum>j = i + 1 - 2..i.
                (if j = 0 then [10, 12, 11] ! 0 - [8, 9, 7] ! 0
                 else max ([10, 12, 11] ! j - [8, 9, 7] ! j)
                   (max \<bar>[10, 12, 11] ! j - [9, 11, 8] ! (j - 1)\<bar> \<bar>[8, 9, 7] ! j - [9, 11, 8] ! (j - 1)\<bar>)))
              / real 2))"
    and p: "\<forall>i<3. \<forall>v. atr ! i = Some v \<longrightarrow> 0 \<le> v"
    by auto
  have s01: "{0..1::nat} = {0, 1}" and s12: "{Suc 0..2::nat} = {Suc 0, Suc (Suc 0)}" by auto
  have a0: "atr ! 0 = None" using v[rule_format, of 0] by simp
  have a1: "atr ! 1 = Some (5 / 2)" using v[rule_format, of 1] by (simp add: s01)
  have a2: "atr ! 2 = Some (7 / 2)" using v[rule_format, of 2] by (simp add: s12)
  show ?thesis using r a0 a1 a2 p by blast
qed

subsection \<open>Cells of a frame\<close>








subsection \<open>The four stages of a loop iteration\<close>























subsection \<open>The loop as a whole\<close>








subsection \<open>The frame before the loop\<close>













lemma py_min_Some: "py_min (Some a) (Some b) = Some (min a b)"
  by (auto simp: py_min_def clt_def)

lemma py_max_Some: "py_max (Some a) (Some b) = Some (max a b)"
  by (auto simp: py_max_def cgt_def clt_def)

subsection \<open>The SuperTrend recurrence of the indicator module\<close>



subsection \<open>The two copies of the recurrence agree\<close>


lemma loc_cong: "cols A c = cols B c' \<Longrightarrow> loc A c j = loc B c' j"
  by (simp add: loc_def)




















subsection \<open>Position sizing\<close>






subsection \<open>Signal confidence\<close>



subsection \<open>Exit evaluation\<close>

lemma truthy_cle:
  "0 < c \<Longrightarrow> truthy v \<and> cle (Some c) (cell_of v) \<longleftrightarrow> (\<exists>x. v = Some (Some x) \<and> c \<le> x)"
  by (auto simp: truthy_def cell_of_def cle_def split: option.splits)

lemma truthy_cge:
  "v \<noteq> Some (Some 0) \<Longrightarrow>
     truthy v \<and> cge (Some c) (cell_of v) \<longleftrightarrow> (\<exists>x. v = Some (Some x) \<and> x \<le> c)"
  by (auto simp: truthy_def cell_of_def cge_def cle_def split: option.splits)

lemma direction_cond:
  "(case r ''supertrend_direction'' of None \<Rightarrow> False | Some d \<Rightarrow> cle d (Some 0)) \<longleftrightarrow>
     (\<exists>d. r ''supertrend_direction'' = Some (Some d) \<and> d \<le> 0)"
  by (auto simp: cle_def split: option.splits)

lemma line_cond:
  "(case r ''supertrend'' of None \<Rightarrow> False | Some st \<Rightarrow> clt (Some c) st) \<longleftrightarrow>
     (\<exists>s. r ''supertrend'' = Some (Some s) \<and> c < s)"
  by (auto simp: clt_def split: option.splits)

lemma trailing_cond:
  fixes r :: row and self :: supertrend_strategy and e c :: real
  assumes "entry_price pos = Some (Some e)" and "0 < c"
    and "\<not> (truthy (stop_loss_price pos) \<and> cle (Some c) (cell_of (stop_loss_price pos)))"
  defines "level \<equiv> (case r ''supertrend'' of
        Some st \<Rightarrow> st
      | None \<Rightarrow> (case r ''atr'' of
                   Some (Some a) \<Rightarrow> if 0 < a then Some (e + a * stop_loss_atr_mult self * (1 / 2)) else None
                 | _ \<Rightarrow> None))"
  shows "truthy (calculate_trailing_stop self pos r) \<and> cle (Some c) (cell_of (calculate_trailing_stop self pos r))
           \<longleftrightarrow> (\<exists>t. level = Some t \<and> c \<le> t)"
    and "(\<exists>t. level = Some t \<and> c \<le> t) \<Longrightarrow> cell_of (calculate_trailing_stop self pos r) = level"
proof -
  let ?ts = "calculate_trailing_stop self pos r"
  consider (line) st where "r ''supertrend'' = Some st"
    | (atr) a where "r ''supertrend'' = None" "r ''atr'' = Some (Some a)" "0 < a"
    | (none) "r ''supertrend'' = None" "\<not> (\<exists>a. r ''atr'' = Some (Some a) \<and> 0 < a)"
    by (cases "r ''supertrend''") auto
  then have "(truthy ?ts \<and> cle (Some c) (cell_of ?ts) \<longleftrightarrow> (\<exists>t. level = Some t \<and> c \<le> t)) \<and>
     ((\<exists>t. level = Some t \<and> c \<le> t) \<longrightarrow> cell_of ?ts = level)"
  proof cases
    case line
    have ts: "?ts = Some st" by (simp add: calculate_trailing_stop_def line)
    have lv: "level = st" by (simp add: level_def line)
    show ?thesis unfolding ts lv using truthy_cle[OF assms(2), of "Some st"]
      by (simp add: cell_of_def)
  next
    case atr
    have ts: "?ts = Some (Some (e + a * stop_loss_atr_mult self * (1 / 2)))"
      using atr assms(1)
      by (simp add: calculate_trailing_stop_def row_get_def cgt_def clt_def cadd_def cmul_def
          lift2_def Let_def)
    have lv: "level = Some (e + a * stop_loss_atr_mult self * (1 / 2))"
      using atr by (simp add: level_def)
    show ?thesis unfolding ts lv
      using truthy_cle[OF assms(2), of "Some (Some (e + a * stop_loss_atr_mult self * (1 / 2)))"]
      by (simp add: cell_of_def)
  next
    case none
    have "\<not> cgt (row_get r ''atr'' (Some 0)) (Some 0)"
      using none(2) by (auto simp: row_get_def cgt_def clt_def split: option.splits)
    then have ts: "?ts = stop_loss_price pos"
      using none(1) by (simp add: calculate_trailing_stop_def Let_def)
    have lv: "level = None"
      using none by (auto simp: level_def split: option.splits)
    show ?thesis unfolding ts lv using assms(3) by simp
  qed
  then show "truthy ?ts \<and> cle (Some c) (cell_of ?ts) \<longleftrightarrow> (\<exists>t. level = Some t \<and> c \<le> t)"
    and "(\<exists>t. level = Some t \<and> c \<le> t) \<Longrightarrow> cell_of ?ts = level"
    by blast+
qed

text \<open>
  Claim C6.  For a position with a positive entry price and a bar with a positive
  close, \<open>should_exit\<close> returns \<open>(True, reason)\<close> for the first of five conditions that
  holds, in this order, and \<open>(False, "")\<close> when none holds: (1) the bar's SuperTrend
  direction is at most 0; (2) the close is below the bar's SuperTrend line; (3) the
  close is at most the stop-loss; (4) the close is at least the take-profit; (5) the
  trailing stop: it is enabled, the unrealised gain \<open>(close - entry) / entry\<close> has
  reached the activation threshold, and the close is at most the trailing level, which
  is the bar's SuperTrend line when the bar has one and otherwise
  \<open>entry + atr * stop multiplier * 0.5\<close> when the bar has a positive ATR.  A condition
  on a price that is absent or NaN does not hold.  Well-formed means here that the
  take-profit, when set, is not 0: the source reads a level of 0 as "not set".
\<close>

theorem should_exit_order:
  assumes "entry_price pos = Some (Some e)" and "0 < e"
    and "current_data ''close'' = Some (Some c)" and "0 < c"
    and "take_profit_price pos \<noteq> Some (Some 0)"
  shows "should_exit fmt2 self pos current_data =
     (let level = (case current_data ''supertrend'' of
                     Some st \<Rightarrow> st
                   | None \<Rightarrow> (case current_data ''atr'' of
                       Some (Some a) \<Rightarrow>
                         if 0 < a then Some (e + a * stop_loss_atr_mult self * (1 / 2)) else None
                     | _ \<Rightarrow> None))
      in case find fst
           [((\<exists>d. current_data ''supertrend_direction'' = Some (Some d) \<and> d \<le> 0),
               ''SuperTrend turned bearish''),
            ((\<exists>s. current_data ''supertrend'' = Some (Some s) \<and> c < s),
               ''Price below SuperTrend line''),
            ((\<exists>sl. stop_loss_price pos = Some (Some sl) \<and> c \<le> sl),
               ''Stop loss hit at '' @ fmt2 (the (cell_of (stop_loss_price pos)))),
            ((\<exists>tp. take_profit_price pos = Some (Some tp) \<and> tp \<le> c),
               ''Profit target reached at '' @ fmt2 (the (cell_of (take_profit_price pos)))),
            (trailing_stop_enabled self \<and> trailing_stop_activation self \<le> (c - e) / e \<and>
               (\<exists>t. level = Some t \<and> c \<le> t),
               ''Trailing stop hit at '' @ fmt2 (the level))]
         of None \<Rightarrow> (False, '''') | Some (_, r) \<Rightarrow> (True, r))"
proof -
  define level where "level = (case current_data ''supertrend'' of
                     Some st \<Rightarrow> st
                   | None \<Rightarrow> (case current_data ''atr'' of
                       Some (Some a) \<Rightarrow>
                         if 0 < a then Some (e + a * stop_loss_atr_mult self * (1 / 2)) else None
                     | _ \<Rightarrow> None))"
  define C1 where "C1 \<longleftrightarrow> (\<exists>d. current_data ''supertrend_direction'' = Some (Some d) \<and> d \<le> 0)"
  define C2 where "C2 \<longleftrightarrow> (\<exists>s. current_data ''supertrend'' = Some (Some s) \<and> c < s)"
  define C3 where "C3 \<longleftrightarrow> (\<exists>sl. stop_loss_price pos = Some (Some sl) \<and> c \<le> sl)"
  define C4 where "C4 \<longleftrightarrow> (\<exists>tp. take_profit_price pos = Some (Some tp) \<and> tp \<le> c)"
  define T where "T \<longleftrightarrow> (\<exists>t. level = Some t \<and> c \<le> t)"
  let ?ts = "calculate_trailing_stop self pos current_data"
  have cp: "row_get current_data ''close'' (Some 0) = Some c"
    using assms(3) by (simp add: row_get_def)
  have guard: "\<not> (cle (Some e) (Some 0) \<or> cle (Some c) (Some 0))"
    using assms(2,4) by (simp add: cle_def)
  have pnl: "cge (cdiv (csub (Some c) (Some e)) (Some e)) (Some a) \<longleftrightarrow> a \<le> (c - e) / e" for a
    by (simp add: cge_def cle_def cdiv_def csub_def lift2_def)
  have k1: "(case current_data ''supertrend_direction'' of None \<Rightarrow> False | Some d \<Rightarrow> cle d (Some 0)) = C1"
    unfolding C1_def by (rule direction_cond)
  have k2: "(case current_data ''supertrend'' of None \<Rightarrow> False | Some st \<Rightarrow> clt (Some c) st) = C2"
    unfolding C2_def by (rule line_cond)
  have k3: "(truthy (stop_loss_price pos) \<and> cle (Some c) (cell_of (stop_loss_price pos))) = C3"
    unfolding C3_def by (rule truthy_cle[OF assms(4)])
  have k4: "(truthy (take_profit_price pos) \<and> cge (Some c) (cell_of (take_profit_price pos))) = C4"
    unfolding C4_def by (rule truthy_cge[OF assms(5)])
  have k5: "(truthy ?ts \<and> cle (Some c) (cell_of ?ts)) = T" and k6: "T \<Longrightarrow> cell_of ?ts = level"
    if "\<not> C3"
    using trailing_cond[OF assms(1,4) that[unfolded k3[symmetric]], where r = current_data and self = self]
    unfolding T_def level_def by blast+
  have unf: "should_exit fmt2 self pos current_data =
     (if C1 then (True, ''SuperTrend turned bearish'')
      else if C2 then (True, ''Price below SuperTrend line'')
      else if C3 then (True, ''Stop loss hit at '' @ fmt2 (the (cell_of (stop_loss_price pos))))
      else if C4 then (True, ''Profit target reached at '' @ fmt2 (the (cell_of (take_profit_price pos))))
      else if trailing_stop_enabled self \<and> trailing_stop_activation self \<le> (c - e) / e
      then (if truthy ?ts \<and> cle (Some c) (cell_of ?ts)
            then (True, ''Trailing stop hit at '' @ fmt2 (the (cell_of ?ts))) else (False, ''''))
      else (False, ''''))"
    unfolding should_exit_def Let_def assms(1) cp option.case if_not_P[OF guard] pnl k1 k2 k3 k4
    by (rule refl)
  have "should_exit fmt2 self pos current_data =
     (case find fst
           [(C1, ''SuperTrend turned bearish''),
            (C2, ''Price below SuperTrend line''),
            (C3, ''Stop loss hit at '' @ fmt2 (the (cell_of (stop_loss_price pos)))),
            (C4, ''Profit target reached at '' @ fmt2 (the (cell_of (take_profit_price pos)))),
            (trailing_stop_enabled self \<and> trailing_stop_activation self \<le> (c - e) / e \<and> T,
               ''Trailing stop hit at '' @ fmt2 (the level))]
         of None \<Rightarrow> (False, '''') | Some (_, r) \<Rightarrow> (True, r))"
  proof (cases C3)
    case True
    then show ?thesis unfolding unf by simp
  next
    case False
    show ?thesis unfolding unf using False k5[OF False] k6[OF False] by auto
  qed
  then show ?thesis
    unfolding Let_def level_def[symmetric] C1_def C2_def C3_def C4_def T_def .
qed

theorem should_exit_order_witness:
  "should_exit (\<lambda>x. ''95.00'') (SuperTrendStrategy empty_config)
     \<lparr>pos_symbol = ''ACME'', qty = 10, entry_price = Some (Some 100), strategy = ''SuperTrend'',
      stop_loss_price = Some (Some 95), take_profit_price = Some (Some 110), order_id = ''1''\<rparr>
     [''close'' \<mapsto> Some 94, ''supertrend_direction'' \<mapsto> Some 1, ''supertrend'' \<mapsto> Some 90]
   = (True, ''Stop loss hit at 95.00'')"
proof -
  let ?pos = "\<lparr>pos_symbol = ''ACME'', qty = 10, entry_price = Some (Some 100), strategy = ''SuperTrend'',
      stop_loss_price = Some (Some 95), take_profit_price = Some (Some 110), order_id = ''1''\<rparr>"
  let ?bar = "[''close'' \<mapsto> Some 94, ''supertrend_direction'' \<mapsto> Some 1, ''supertrend'' \<mapsto> Some (90::real)]"
  have a: "entry_price ?pos = Some (Some 100)" "(0::real) < 100"
    "?bar ''close'' = Some (Some 94)" "(0::real) < 94"
    "take_profit_price ?pos \<noteq> Some (Some 0)" by simp_all
  show ?thesis
    unfolding should_exit_order[where pos = ?pos and current_data = ?bar and e = 100 and c = 94
        and ?fmt2.0 = "\<lambda>x. ''95.00''" and self = "SuperTrendStrategy empty_config", OF a]
    by (simp add: cell_of_def)
qed

subsection \<open>The caller's frame is left unchanged\<close>

lemma objs_modify: "objs (modify h a f) b = (if b = a then Some (f (deref h a)) else objs h b)"
  by (simp add: modify_def)

lemma next_modify: "next_addr (modify h a f) = next_addr h"
  by (simp add: modify_def)

lemma deref_modify_same: "deref (modify h a f) a = f (deref h a)"
  by (simp add: deref_def modify_def)

lemma objs_df_copy:
  "objs (snd (df_copy h a)) b = (if b = next_addr h then Some (deref h a) else objs h b)"
  by (simp add: df_copy_def)

lemma fold_modify:
  "objs h a \<noteq> None \<Longrightarrow> fold (\<lambda>i h. modify h a (g i)) is h = modify h a (fold g is)"
proof (induction "is" arbitrary: h)
  case Nil
  then obtain f where "objs h a = Some f" by auto
  then have "(objs h)(a \<mapsto> f) = objs h" by (simp add: fun_upd_idem_iff)
  then show ?case using \<open>objs h a = Some f\<close> by (simp add: modify_def deref_def)
next
  case (Cons i "is")
  have ne: "objs (modify h a (g i)) a \<noteq> None" by (simp add: modify_def)
  have "modify (modify h a (g i)) a (fold g is) = modify h a (fold g is \<circ> g i)"
    by (simp add: modify_def deref_def)
  then show ?case using Cons.IH[OF ne] by (simp add: comp_def)
qed

text \<open>The store functions compute, in the new object, what the value functions compute.\<close>

lemma calculate_atr_st_result:
  assumes "objs h a = Some f"
  shows "case calculate_atr_st h a p of
           (Inl e, h') \<Rightarrow> calculate_atr f p = Inl e \<and> (\<forall>b<next_addr h. objs h' b = objs h b) \<and>
                          next_addr h \<le> next_addr h'
         | (Inr r, h') \<Rightarrow> r = next_addr h \<and> next_addr h' = Suc (next_addr h) \<and>
                          (\<exists>out. calculate_atr f p = Inr out \<and> objs h' r = Some out) \<and>
                          (\<forall>b<next_addr h. objs h' b = objs h b)"
  using assms
  by (auto simp: calculate_atr_st_def calculate_atr_def df_copy_def deref_def modify_def Let_def
      split: option.splits)

lemma modify_modify: "modify (modify h a f) a g = modify h a (g \<circ> f)"
  by (simp add: modify_def deref_def)

lemma modify_Some: "objs h a = Some x \<Longrightarrow> modify h a f = h\<lparr>objs := (objs h)(a \<mapsto> f x)\<rparr>"
  by (simp add: modify_def deref_def)

text \<open>Lines 45 to 87 on the object \<open>r\<close>, against the same lines on its value.\<close>

lemma supertrend_tail_st:
  assumes r: "objs h2 r = Some df1"
  shows "bands_and_loop_st h2 r atrc m =
         (case basic_bands df1 atrc m of
              Inl e \<Rightarrow> (Inl e, h2)
            | Inr df0 \<Rightarrow>
                if 1 < nrows df0 \<and> \<not> has_col df0 ''close''
                then (Inl (KeyError ''close''), h2\<lparr>objs := (objs h2)(r \<mapsto> df0)\<rparr>)
                else (Inr r, h2\<lparr>objs := (objs h2)(r \<mapsto> fold supertrend_step [1..<nrows df0] df0)\<rparr>))"
proof -
  have d: "deref h2 r = df1" using r by (simp add: deref_def)
  show ?thesis
  proof (cases "cols df1 ''high''")
    case None
    then show ?thesis unfolding bands_and_loop_st_def basic_bands_def by (simp add: d)
  next
    case (Some high)
    note hi = this
    show ?thesis
    proof (cases "cols df1 ''low''")
      case None
      then show ?thesis unfolding bands_and_loop_st_def basic_bands_def by (simp add: d hi)
    next
      case (Some low)
      define hl2 where "hl2 = ser_div_const (ser_add high low) 2"
      define df2 where "df2 = set_col df1 ''supertrend_upperband''
                                  (ser_add hl2 (ser_scale m (the (cols df1 atrc))))"
      define df3 where "df3 = set_col df2 ''supertrend_lowerband''
                                  (ser_sub hl2 (ser_scale m (the (cols df2 atrc))))"
      define df5 where "df5 = set_const (set_const df3 ''supertrend'' 0) ''supertrend_direction'' 1"
      define h3 where "h3 = modify h2 r (\<lambda>d. set_col d ''supertrend_upperband''
                            (ser_add hl2 (ser_scale m (the (cols (deref h2 r) atrc)))))"
      define h4 where "h4 = modify h3 r (\<lambda>d. set_col d ''supertrend_lowerband''
                            (ser_sub hl2 (ser_scale m (the (cols (deref h3 r) atrc)))))"
      define h6 where "h6 = modify (modify h4 r (\<lambda>d. set_const d ''supertrend'' 0)) r
                            (\<lambda>d. set_const d ''supertrend_direction'' 1)"
      have e3: "h3 = h2\<lparr>objs := (objs h2)(r \<mapsto> df2)\<rparr>"
        unfolding h3_def df2_def d by (simp add: modify_Some[OF r])
      have d3: "deref h3 r = df2" by (simp add: e3 deref_def)
      have e4: "h4 = h2\<lparr>objs := (objs h2)(r \<mapsto> df3)\<rparr>"
        unfolding h4_def d3 df3_def by (simp add: e3 modify_def deref_def)
      have e6: "h6 = h2\<lparr>objs := (objs h2)(r \<mapsto> df5)\<rparr>"
        unfolding h6_def df5_def by (simp add: e4 modify_def deref_def)
      have d6: "deref h6 r = df5" by (simp add: e6 deref_def)
      have ne: "objs h6 r \<noteq> None" by (simp add: e6)
      have f: "fold (\<lambda>i h. modify h r (supertrend_step i)) is h6 =
               h2\<lparr>objs := (objs h2)(r \<mapsto> fold supertrend_step is df5)\<rparr>" for "is"
        unfolding fold_modify[OF ne] by (simp add: e6 modify_def deref_def)
      have L: "(case cols (deref h2 r) ''high'' of None \<Rightarrow> (Inl (KeyError ''high''), h2) | Some high \<Rightarrow>
             (case cols (deref h2 r) ''low'' of None \<Rightarrow> (Inl (KeyError ''low''), h2) | Some low \<Rightarrow>
                (let hl2 = ser_div_const (ser_add high low) 2;
                     h3 = modify h2 r (\<lambda>d. set_col d ''supertrend_upperband''
                            (ser_add hl2 (ser_scale m (the (cols (deref h2 r) atrc)))));
                     h4 = modify h3 r (\<lambda>d. set_col d ''supertrend_lowerband''
                            (ser_sub hl2 (ser_scale m (the (cols (deref h3 r) atrc)))));
                     h5 = modify h4 r (\<lambda>d. set_const d ''supertrend'' 0);
                     h6 = modify h5 r (\<lambda>d. set_const d ''supertrend_direction'' 1)
                 in if 1 < nrows (deref h6 r) \<and> \<not> has_col (deref h6 r) ''close''
                    then (Inl (KeyError ''close''), h6)
                    else (Inr r,
                          fold (\<lambda>i h. modify h r (supertrend_step i)) [1..<nrows (deref h6 r)] h6))))
           = (if 1 < nrows (deref h6 r) \<and> \<not> has_col (deref h6 r) ''close''
                    then (Inl (KeyError ''close''), h6)
                    else (Inr r,
                          fold (\<lambda>i h. modify h r (supertrend_step i)) [1..<nrows (deref h6 r)] h6))"
        unfolding h6_def h4_def h3_def hl2_def Let_def by (simp only: d hi Some option.case)
      have R: "(case cols df1 ''high'' of None \<Rightarrow> Inl (KeyError ''high'') | Some high \<Rightarrow>
                  (case cols df1 ''low'' of None \<Rightarrow> Inl (KeyError ''low'') | Some low \<Rightarrow>
                     (let hl2 = ser_div_const (ser_add high low) 2;
                          df2 = set_col df1 ''supertrend_upperband''
                                  (ser_add hl2 (ser_scale m (the (cols df1 atrc))));
                          df3 = set_col df2 ''supertrend_lowerband''
                                  (ser_sub hl2 (ser_scale m (the (cols df2 atrc))));
                          df4 = set_const df3 ''supertrend'' 0;
                          df5 = set_const df4 ''supertrend_direction'' 1
                      in Inr df5))) = Inr df5"
        unfolding df5_def df3_def df2_def hl2_def Let_def by (simp only: hi Some option.case)
      show ?thesis unfolding bands_and_loop_st_def basic_bands_def L R d6 f by (simp add: e6)
    qed
  qed
qed

lemma supertrend_prepare_alt:
  "supertrend_prepare df p m a =
     (case (if \<not> has_col df a
            then (case calculate_atr df p of Inl e \<Rightarrow> Inl e | Inr d \<Rightarrow> Inr (d, ''atr''))
            else Inr (df, a)) of
        Inl e \<Rightarrow> Inl e
      | Inr (df1, atrc) \<Rightarrow> basic_bands df1 atrc m)"
  unfolding supertrend_prepare_def basic_bands_def by (rule refl)

lemma calculate_supertrend_st_alt:
  "calculate_supertrend_st h0 a p m c =
     (let (df1, h1) = df_copy h0 a
      in case (if \<not> has_col (deref h1 df1) c
               then (case calculate_atr_st h1 df1 p of
                       (Inl e, h) \<Rightarrow> (Inl e, h)
                     | (Inr d, h) \<Rightarrow> (Inr (d, ''atr''), h))
               else (Inr (df1, c), h1)) of
           (Inl e, h) \<Rightarrow> (Inl e, h)
         | (Inr (df, atrc), h2) \<Rightarrow> bands_and_loop_st h2 df atrc m)"
  unfolding calculate_supertrend_st_def bands_and_loop_st_def by (rule refl)

lemma tail_frame:
  assumes "objs h2 r = Some df1" and "next_addr h \<le> r"
    and "\<forall>b<next_addr h. objs h2 b = objs h b"
  shows "case bands_and_loop_st h2 r atrc m of
           (Inl e, h') \<Rightarrow>
              (case basic_bands df1 atrc m of
                 Inl e' \<Rightarrow> e' = e
               | Inr df0 \<Rightarrow> 1 < nrows df0 \<and> \<not> has_col df0 ''close'' \<and> e = KeyError ''close'') \<and>
              (\<forall>b<next_addr h. objs h' b = objs h b)
         | (Inr r', h') \<Rightarrow> r' = r \<and>
              (\<exists>df0. basic_bands df1 atrc m = Inr df0 \<and>
                 \<not> (1 < nrows df0 \<and> \<not> has_col df0 ''close'') \<and>
                 objs h' r = Some (fold supertrend_step [1..<nrows df0] df0)) \<and>
              (\<forall>b<next_addr h. objs h' b = objs h b)"
  unfolding supertrend_tail_st[OF assms(1)]
  using assms(2,3) by (auto split: sum.splits)

lemma calculate_supertrend_st_result:
  assumes "objs h a = Some f"
  shows "case calculate_supertrend_st h a p m c of
           (Inl e, h') \<Rightarrow> calculate_supertrend f p m c = Inl e \<and>
                          (\<forall>b<next_addr h. objs h' b = objs h b)
         | (Inr r, h') \<Rightarrow> next_addr h \<le> r \<and>
                          (\<exists>out. calculate_supertrend f p m c = Inr out \<and> objs h' r = Some out) \<and>
                          (\<forall>b<next_addr h. objs h' b = objs h b)"
proof -
  define h1 where "h1 = \<lparr>next_addr = Suc (next_addr h), objs = (objs h)(next_addr h \<mapsto> f)\<rparr>"
  have cp: "df_copy h a = (next_addr h, h1)"
    using assms by (simp add: df_copy_def h1_def deref_def)
  have o1: "objs h1 (next_addr h) = Some f" by (simp add: h1_def)
  have d1: "deref h1 (next_addr h) = f" by (simp add: deref_def o1)
  have below: "\<forall>b<next_addr h. objs h1 b = objs h b" by (simp add: h1_def)
  have n1: "next_addr h1 = Suc (next_addr h)" by (simp add: h1_def)
  show ?thesis
  proof (cases "has_col f c")
    case True
    have s: "calculate_supertrend_st h a p m c = bands_and_loop_st h1 (next_addr h) c m"
      unfolding calculate_supertrend_st_alt cp by (simp add: d1 True)
    have v: "supertrend_prepare f p m c = basic_bands f c m"
      unfolding supertrend_prepare_alt by (simp add: True)
    show ?thesis
      unfolding s using tail_frame[OF o1 le_refl below, of c m]
      by (auto simp: calculate_supertrend_def v split: sum.splits prod.splits)
  next
    case False
    note atr = calculate_atr_st_result[OF o1, of p]
    show ?thesis
    proof (cases "calculate_atr_st h1 (next_addr h) p")
      case (Pair res h2)
      show ?thesis
      proof (cases res)
        case (Inl e)
        have s: "calculate_supertrend_st h a p m c = (Inl e, h2)"
          unfolding calculate_supertrend_st_alt cp by (simp add: d1 False Pair Inl)
        have v: "calculate_supertrend f p m c = Inl e"
          using atr by (simp add: Pair Inl calculate_supertrend_def supertrend_prepare_alt False)
        have "\<forall>b<next_addr h. objs h2 b = objs h b"
          using atr below by (simp add: Pair Inl n1)
        then show ?thesis unfolding s using v by simp
      next
        case (Inr r)
        from atr obtain d where r: "r = Suc (next_addr h)" and d: "calculate_atr f p = Inr d"
          and o2: "objs h2 r = Some d" and fr: "\<forall>b<Suc (next_addr h). objs h2 b = objs h1 b"
          by (auto simp: Pair Inr n1)
        have s: "calculate_supertrend_st h a p m c = bands_and_loop_st h2 r ''atr'' m"
          unfolding calculate_supertrend_st_alt cp by (simp add: d1 False Pair Inr)
        have v: "supertrend_prepare f p m c = basic_bands d ''atr'' m"
          unfolding supertrend_prepare_alt by (simp add: False d)
        have le: "next_addr h \<le> r" by (simp add: r)
        have below2: "\<forall>b<next_addr h. objs h2 b = objs h b" using fr below by simp
        show ?thesis
          unfolding s using tail_frame[OF o2 le below2, of "''atr''" m] le
          by (auto simp: calculate_supertrend_def v split: sum.splits prod.splits)
      qed
    qed
  qed
qed

text \<open>
  Claim C10.  \<open>calculate_atr\<close> and \<open>calculate_supertrend\<close>, called on a reference to the
  caller's frame, leave every object that existed before the call as it was, the
  caller's frame among them: each of its columns and cells has the value it had.  This
  also holds when the call raises.  On success the result is a new object, and it holds
  the enriched frame that the value-level functions compute from the caller's frame.
\<close>

theorem indicators_leave_input_unchanged:
  assumes "a < next_addr h" and "objs h a = Some f"
  shows "objs (snd (calculate_atr_st h a p)) a = Some f \<and>
         objs (snd (calculate_supertrend_st h a p m c)) a = Some f \<and>
         (\<forall>b<next_addr h. objs (snd (calculate_atr_st h a p)) b = objs h b) \<and>
         (\<forall>b<next_addr h. objs (snd (calculate_supertrend_st h a p m c)) b = objs h b) \<and>
         (case fst (calculate_atr_st h a p) of
            Inl e \<Rightarrow> calculate_atr f p = Inl e
          | Inr r \<Rightarrow> r \<noteq> a \<and> (\<exists>out. calculate_atr f p = Inr out \<and>
                        objs (snd (calculate_atr_st h a p)) r = Some out)) \<and>
         (case fst (calculate_supertrend_st h a p m c) of
            Inl e \<Rightarrow> calculate_supertrend f p m c = Inl e
          | Inr r \<Rightarrow> r \<noteq> a \<and> (\<exists>out. calculate_supertrend f p m c = Inr out \<and>
                        objs (snd (calculate_supertrend_st h a p m c)) r = Some out))"
proof -
  obtain r1 h1 where e1: "calculate_atr_st h a p = (r1, h1)" by (cases "calculate_atr_st h a p")
  obtain r2 h2 where e2: "calculate_supertrend_st h a p m c = (r2, h2)"
    by (cases "calculate_supertrend_st h a p m c")
  note A = calculate_atr_st_result[OF assms(2), of p, unfolded e1]
  note S = calculate_supertrend_st_result[OF assms(2), of p m c, unfolded e2]
  have fa: "\<forall>b<next_addr h. objs h1 b = objs h b" using A by (cases r1) auto
  have fs: "\<forall>b<next_addr h. objs h2 b = objs h b" using S by (cases r2) auto
  have ra: "case r1 of Inl e \<Rightarrow> calculate_atr f p = Inl e
          | Inr r \<Rightarrow> r \<noteq> a \<and> (\<exists>out. calculate_atr f p = Inr out \<and> objs h1 r = Some out)"
    using A assms(1) by (cases r1) auto
  have rs: "case r2 of Inl e \<Rightarrow> calculate_supertrend f p m c = Inl e
          | Inr r \<Rightarrow> r \<noteq> a \<and> (\<exists>out. calculate_supertrend f p m c = Inr out \<and> objs h2 r = Some out)"
    using S assms(1) by (cases r2) auto
  show ?thesis
    unfolding e1 e2 fst_conv snd_conv using fa fs ra rs assms by simp
qed

theorem indicators_leave_input_unchanged_witness:
  "objs (snd (calculate_atr_st
       \<lparr>next_addr = 1,
        objs = [0 \<mapsto> frame_of [\<lparr>b_high = 10, b_low = 8, b_close = 9, b_volume = 100\<rparr>,
                               \<lparr>b_high = 12, b_low = 9, b_close = 11, b_volume = 100\<rparr>]]\<rparr> 0 2)) 0 =
     Some (frame_of [\<lparr>b_high = 10, b_low = 8, b_close = 9, b_volume = 100\<rparr>,
                     \<lparr>b_high = 12, b_low = 9, b_close = 11, b_volume = 100\<rparr>]) \<and>
   objs (snd (calculate_supertrend_st
       \<lparr>next_addr = 1,
        objs = [0 \<mapsto> frame_of [\<lparr>b_high = 10, b_low = 8, b_close = 9, b_volume = 100\<rparr>,
                               \<lparr>b_high = 12, b_low = 9, b_close = 11, b_volume = 100\<rparr>]]\<rparr> 0 2 3 ''atr'')) 0 =
     Some (frame_of [\<lparr>b_high = 10, b_low = 8, b_close = 9, b_volume = 100\<rparr>,
                     \<lparr>b_high = 12, b_low = 9, b_close = 11, b_volume = 100\<rparr>])"
proof -
  define f where "f = frame_of [\<lparr>b_high = 10, b_low = 8, b_close = 9, b_volume = 100\<rparr>,
                     \<lparr>b_high = 12, b_low = 9, b_close = 11, b_volume = 100\<rparr>]"
  define h where "h = \<lparr>next_addr = 1, objs = [0 \<mapsto> f]\<rparr>"
  have a: "0 < next_addr h" "objs h 0 = Some f" by (simp_all add: h_def)
  note t = indicators_leave_input_unchanged[OF a, of 2 3 "''atr''"]
  show ?thesis
    unfolding f_def[symmetric] h_def[symmetric] using t by (intro conjI) (elim conjE, assumption)+
qed

end
